theory Spec2Isabelle
  imports Complex_Main "HOL-Library.Word" "HOL-Library.Monad_Syntax"
begin

unbundle bit_operations_syntax

section \<open>Values\<close>

text \<open>
  The program is TypeScript. Its numbers are IEEE doubles. A finite double is the real number
  it denotes; NaN and the two infinities are kept apart where the attribute filter looks at
  them. The rounding of an arithmetic operation is written out (\<open>fl64\<close>, \<open>round64\<close>)
  in the two computations whose result is compared or truncated right away: the filter's
  \<open>sigmoid\<close> and the quantization of the spherical-harmonic coefficients. Everywhere
  else (the chunk quantizer, the minimal encoder) the operations are those of the reals and
  a stored value is the value itself. Reading a typed array past its end yields
  \<open>undefined\<close>, the \<open>None\<close> of \<open>arr_get\<close>.
\<close>

datatype error = TypeError | RangeError

datatype num = Num real | NaN | PosInf | NegInf

definition arr_get :: "'a list \<Rightarrow> nat \<Rightarrow> 'a option" where
  "arr_get xs i = (if i < length xs then Some (xs ! i) else None)"

text \<open>\<open>Math.trunc\<close> on a finite number.\<close>

definition trunc :: "real \<Rightarrow> int" where
  "trunc r = (if 0 \<le> r then \<lfloor>r\<rfloor> else \<lceil>r\<rceil>)"

text \<open>\<open>ToInt32\<close> of a value read from an array: \<open>undefined\<close>, NaN and the infinities
  give 0, a finite number is truncated and wrapped to 32 bits.\<close>

definition ToInt32 :: "num option \<Rightarrow> 32 word" where
  "ToInt32 v = (case v of Some (Num r) \<Rightarrow> word_of_int (trunc r) | _ \<Rightarrow> 0)"

text \<open>\<open>ToUint8\<close> of a finite number, as \<open>DataView.setUint8\<close> stores it.\<close>

definition ToUint8 :: "real \<Rightarrow> 8 word" where
  "ToUint8 r = word_of_int (trunc r)"

definition Number_isFinite :: "num option \<Rightarrow> bool" where
  "Number_isFinite v = (case v of Some (Num r) \<Rightarrow> True | _ \<Rightarrow> False)"

text \<open>\<open>ToNumber\<close> of a value read from an array: \<open>undefined\<close> is NaN.\<close>

definition ToNumber :: "num option \<Rightarrow> num" where
  "ToNumber v = (case v of None \<Rightarrow> NaN | Some a \<Rightarrow> a)"

subsection \<open>Rounding to a double\<close>

text \<open>
  Round to nearest, ties to even, in binary64: 53 significant bits, the least exponent
  \<open>-1022\<close> (below it the spacing stays \<open>2^-1074\<close>, the subnormal numbers). \<open>expo x\<close> is
  the exponent of the binade of \<open>x\<close>, \<open>ulp x\<close> the spacing of the doubles there, and
  \<open>fl64 x\<close> the multiple of \<open>ulp x\<close> nearest to \<open>x\<close>. \<open>round64\<close> adds the overflow: a
  result beyond the largest double is an infinity. The model has one zero, the positive one.
\<close>

definition round_half_even :: "real \<Rightarrow> int" where
  "round_half_even x =
     (let f = \<lfloor>x\<rfloor>; r = x - of_int f
      in if r < 1 / 2 then f else if 1 / 2 < r then f + 1 else if even f then f else f + 1)"

definition expo :: "real \<Rightarrow> int" where
  "expo x = max \<lfloor>log 2 \<bar>x\<bar>\<rfloor> (- 1022)"

definition ulp :: "real \<Rightarrow> real" where
  "ulp x = 2 powr of_int (expo x - 52)"

definition fl64 :: "real \<Rightarrow> real" where
  "fl64 x = (if x = 0 then 0 else of_int (round_half_even (x / ulp x)) * ulp x)"

definition dbl_max :: real where
  "dbl_max = (2 ^ 53 - 1) * 2 ^ 971"

definition round64 :: "real \<Rightarrow> num" where
  "round64 x = (let y = fl64 x
                in if dbl_max < y then PosInf else if y < - dbl_max then NegInf else Num y)"

text \<open>\<open>-a\<close>, \<open>a + b\<close> and \<open>a / b\<close> on doubles.\<close>

fun dbl_neg :: "num \<Rightarrow> num" where
  "dbl_neg (Num x) = Num (- x)"
| "dbl_neg NaN = NaN"
| "dbl_neg PosInf = NegInf"
| "dbl_neg NegInf = PosInf"

fun dbl_add :: "num \<Rightarrow> num \<Rightarrow> num" where
  "dbl_add (Num x) (Num y) = round64 (x + y)"
| "dbl_add NaN b = NaN"
| "dbl_add a NaN = NaN"
| "dbl_add PosInf NegInf = NaN"
| "dbl_add NegInf PosInf = NaN"
| "dbl_add PosInf b = PosInf"
| "dbl_add a PosInf = PosInf"
| "dbl_add NegInf b = NegInf"
| "dbl_add a NegInf = NegInf"

fun dbl_div :: "num \<Rightarrow> num \<Rightarrow> num" where
  "dbl_div (Num x) (Num y) =
     (if y = 0 then (if x = 0 then NaN else if 0 < x then PosInf else NegInf)
      else round64 (x / y))"
| "dbl_div NaN b = NaN"
| "dbl_div a NaN = NaN"
| "dbl_div (Num x) b = Num 0"
| "dbl_div PosInf (Num y) = (if 0 \<le> y then PosInf else NegInf)"
| "dbl_div NegInf (Num y) = (if 0 \<le> y then NegInf else PosInf)"
| "dbl_div a b = NaN"

text \<open>\<open>a < b\<close> for a number \<open>a\<close> that may be NaN and a finite \<open>b\<close>.\<close>

definition num_less :: "num \<Rightarrow> real \<Rightarrow> bool" where
  "num_less a b = (case a of Num r \<Rightarrow> r < b | NegInf \<Rightarrow> True | _ \<Rightarrow> False)"

section \<open>Splat collections\<close>

datatype DataType = T_char | T_uchar | T_short | T_ushort | T_int | T_uint | T_float | T_double

fun DataTypeSize :: "DataType \<Rightarrow> nat" where
  "DataTypeSize T_char = 1"
| "DataTypeSize T_uchar = 1"
| "DataTypeSize T_short = 2"
| "DataTypeSize T_ushort = 2"
| "DataTypeSize T_int = 4"
| "DataTypeSize T_uint = 4"
| "DataTypeSize T_float = 4"
| "DataTypeSize T_double = 8"

fun DataTypeName :: "DataType \<Rightarrow> string" where
  "DataTypeName T_char = ''char''"
| "DataTypeName T_uchar = ''uchar''"
| "DataTypeName T_short = ''short''"
| "DataTypeName T_ushort = ''ushort''"
| "DataTypeName T_int = ''int''"
| "DataTypeName T_uint = ''uint''"
| "DataTypeName T_float = ''float''"
| "DataTypeName T_double = ''double''"

text \<open>
  A property of a PLY element: its name, its declared type and its storage (a typed array,
  absent for a property that was not loaded). \<open>GSplatData\<close> and \<open>Splat\<close> are the
  collaborators' classes; only what the serializer reads of them is kept: the elements, the
  number of splats, and the sorter's world-space centers (three per splat, taken as a total
  function of the array index: the sorter owns an array that covers every splat).
\<close>

record property =
  pname :: string
  ptype :: DataType
  storage :: "num list option"

record element =
  ename :: string
  properties :: "property list"

record GSplatData =
  numSplats :: nat
  elements :: "element list"

record Splat =
  splatData :: GSplatData
  centers :: "nat \<Rightarrow> real"

definition getElement :: "GSplatData \<Rightarrow> string \<Rightarrow> element option" where
  "getElement d n = find (\<lambda>e. ename e = n) (elements d)"

text \<open>\<open>getProp(name)\<close>: the storage of the vertex property of that name, \<open>undefined\<close>
  when the element or the property is missing.\<close>

definition getProp :: "GSplatData \<Rightarrow> string \<Rightarrow> num list option" where
  "getProp d n =
     (case getElement d ''vertex'' of
        None \<Rightarrow> None
      | Some e \<Rightarrow> (case find (\<lambda>p. pname p = n) (properties e) of
                    None \<Rightarrow> None
                  | Some p \<Rightarrow> storage p))"

text \<open>
  What the module takes from outside these sources is a parameter of the model: the two
  members of the \<open>State\<close> enumeration that the serializer uses, and the engine's
  \<open>Math.exp\<close> on a finite argument other than zero, which ECMA-262 leaves to the
  implementation (a double close to the exponential, or \<open>+Infinity\<close>).
\<close>

record Host =
  State_selected :: int
  State_deleted :: int
  engine_exp :: "real \<Rightarrow> num"

text \<open>\<open>Math.exp\<close>: NaN for NaN, \<open>+Infinity\<close> and \<open>+0\<close> at the infinities, exactly 1 at
  zero (ECMA-262), the engine's value elsewhere.\<close>

fun Math_exp :: "Host \<Rightarrow> num \<Rightarrow> num" where
  "Math_exp St (Num x) = (if x = 0 then Num 1 else engine_exp St x)"
| "Math_exp St NaN = NaN"
| "Math_exp St PosInf = PosInf"
| "Math_exp St NegInf = Num 0"

text \<open>\<open>const sigmoid = (v) => 1 / (1 + Math.exp(-v))\<close>, on a value read from an array.\<close>

definition sigmoid :: "Host \<Rightarrow> num option \<Rightarrow> num" where
  "sigmoid St v = dbl_div (Num 1) (dbl_add (Num 1) (Math_exp St (dbl_neg (ToNumber v))))"

record SerializeSettings =
  maxSHBands :: "nat option"
  selected :: "bool option"
  minOpacity :: "real option"
  removeInvalid :: "bool option"
  keepStateData :: "bool option"
  keepWorldTransform :: "bool option"
  keepColorTint :: "bool option"

text \<open>\<open>a ?? b\<close>\<close>

definition orElse :: "'a option \<Rightarrow> 'a \<Rightarrow> 'a" where
  "orElse a b = (case a of None \<Rightarrow> b | Some v \<Rightarrow> v)"

section \<open>GaussianFilter\<close>

text \<open>The closure variables of the filter: the collection bound by \<open>set\<close>, its state and
  opacity arrays, and the three settings read by the constructor.\<close>

record GaussianFilter =
  f_splat :: "Splat option"
  f_state :: "num list option"
  f_opacity :: "num list option"
  f_onlySelected :: bool
  f_minOpacity :: real
  f_removeInvalid :: bool

definition GaussianFilter_new :: "SerializeSettings \<Rightarrow> GaussianFilter" where
  "GaussianFilter_new s =
     \<lparr> f_splat = None, f_state = None, f_opacity = None,
       f_onlySelected = orElse (selected s) False,
       f_minOpacity = orElse (minOpacity s) 0,
       f_removeInvalid = orElse (removeInvalid s) False \<rparr>"

definition filter_set :: "GaussianFilter \<Rightarrow> Splat \<Rightarrow> GaussianFilter" where
  "filter_set f s =
     f \<lparr> f_splat := Some s,
         f_state := getProp (splatData s) ''state'',
         f_opacity := getProp (splatData s) ''opacity'' \<rparr>"

text \<open>The scan of \<open>removeInvalid\<close>: no storage-backed property of any element holds a
  value at \<open>i\<close> that is not finite.\<close>

definition allFinite :: "GSplatData \<Rightarrow> nat \<Rightarrow> bool" where
  "allFinite d i =
     list_all (\<lambda>e. list_all (\<lambda>p. case storage p of
                                     None \<Rightarrow> True
                                   | Some st \<Rightarrow> Number_isFinite (arr_get st i))
                       (properties e))
       (elements d)"

definition test_invalid :: "GaussianFilter \<Rightarrow> nat \<Rightarrow> error + bool" where
  "test_invalid f i =
     (if f_removeInvalid f
      then (case f_splat f of
              None \<Rightarrow> Inl TypeError
            | Some s \<Rightarrow> Inr (allFinite (splatData s) i))
      else Inr True)"

definition test_opacity :: "Host \<Rightarrow> GaussianFilter \<Rightarrow> nat \<Rightarrow> error + bool" where
  "test_opacity St f i =
     (if f_minOpacity f > 0
      then (case f_opacity f of
              None \<Rightarrow> Inl TypeError
            | Some op \<Rightarrow> if num_less (sigmoid St (arr_get op i)) (f_minOpacity f)
                        then Inr False else test_invalid f i)
      else test_invalid f i)"

text \<open>\<open>test(i)\<close>. Indexing an array that \<open>getProp\<close> did not find raises a TypeError.\<close>

definition test :: "Host \<Rightarrow> GaussianFilter \<Rightarrow> nat \<Rightarrow> error + bool" where
  "test St f i =
     (case f_state f of
        None \<Rightarrow> Inl TypeError
      | Some st \<Rightarrow>
          if ToInt32 (arr_get st i) AND word_of_int (State_deleted St) \<noteq> 0 then Inr False
          else if f_onlySelected f \<and> arr_get st i \<noteq> Some (Num (real_of_int (State_selected St)))
          then Inr False
          else test_opacity St f i)"

section \<open>countGaussians\<close>

fun count_loop :: "Host \<Rightarrow> GaussianFilter \<Rightarrow> nat list \<Rightarrow> nat \<Rightarrow> error + nat" where
  "count_loop St f [] accum = Inr accum"
| "count_loop St f (i # rest) accum =
     (case test St f i of
        Inl e \<Rightarrow> Inl e
      | Inr b \<Rightarrow> count_loop St f rest (accum + (if b then 1 else 0)))"

fun count_reduce :: "Host \<Rightarrow> GaussianFilter \<Rightarrow> Splat list \<Rightarrow> nat \<Rightarrow> error + nat" where
  "count_reduce St f [] accum = Inr accum"
| "count_reduce St f (s # rest) accum =
     (case count_loop St (filter_set f s) [0 ..< numSplats (splatData s)] accum of
        Inl e \<Rightarrow> Inl e
      | Inr a \<Rightarrow> count_reduce St (filter_set f s) rest a)"

definition countGaussians :: "Host \<Rightarrow> Splat list \<Rightarrow> GaussianFilter \<Rightarrow> error + nat" where
  "countGaussians St splats f = count_reduce St f splats 0"

section \<open>Common properties and spherical-harmonic bands\<close>

text \<open>A JavaScript \<open>Set\<close> keeps its members in insertion order, each once.\<close>

definition set_add :: "'a list \<Rightarrow> 'a \<Rightarrow> 'a list" where
  "set_add xs x = (if x \<in> set xs then xs else xs @ [x])"

definition new_Set :: "'a list \<Rightarrow> 'a list" where
  "new_Set xs = foldl set_add [] xs"

text \<open>The storage-backed properties of the vertex element; reading \<open>properties\<close> of a
  missing element raises a TypeError.\<close>

definition vertexStorageProps :: "GSplatData \<Rightarrow> error + property list" where
  "vertexStorageProps d =
     (case getElement d ''vertex'' of
        None \<Rightarrow> Inl TypeError
      | Some e \<Rightarrow> Inr (filter (\<lambda>p. storage p \<noteq> None) (properties e)))"

definition getVertexProperties :: "GSplatData \<Rightarrow> error + string list" where
  "getVertexProperties d =
     (case vertexStorageProps d of
        Inl e \<Rightarrow> Inl e
      | Inr ps \<Rightarrow> Inr (new_Set (map pname ps)))"

text \<open>\<open>getCommonPropNames\<close>: the loop keeps, of the first collection's names, those that
  every later collection has. With no collection the result stays \<open>undefined\<close> and
  spreading it raises.\<close>

fun commonPropNames_loop :: "Splat list \<Rightarrow> string list \<Rightarrow> error + string list" where
  "commonPropNames_loop [] result = Inr result"
| "commonPropNames_loop (s # rest) result =
     (case getVertexProperties (splatData s) of
        Inl e \<Rightarrow> Inl e
      | Inr props \<Rightarrow> commonPropNames_loop rest (filter (\<lambda>i. i \<in> set props) result))"

definition getCommonPropNames :: "Splat list \<Rightarrow> error + string list" where
  "getCommonPropNames splats =
     (case splats of
        [] \<Rightarrow> Inl TypeError
      | s # rest \<Rightarrow> (case getVertexProperties (splatData s) of
                       Inl e \<Rightarrow> Inl e
                     | Inr props \<Rightarrow> commonPropNames_loop rest props))"

text \<open>\<open>getCommonProps\<close>: a \<open>Map\<close> from name to the set of types seen under that name,
  in insertion order, then the names whose set has one member.\<close>

fun map_add_type :: "(string \<times> DataType list) list \<Rightarrow> string \<Rightarrow> DataType
    \<Rightarrow> (string \<times> DataType list) list" where
  "map_add_type [] n t = [(n, [t])]"
| "map_add_type ((k, ts) # m) n t =
     (if k = n then (k, set_add ts t) # m else (k, ts) # map_add_type m n t)"

definition add_properties :: "(string \<times> DataType list) list \<Rightarrow> property list
    \<Rightarrow> (string \<times> DataType list) list" where
  "add_properties m ps = foldl (\<lambda>r p. map_add_type r (pname p) (ptype p)) m ps"

fun commonProps_loop :: "Splat list \<Rightarrow> (string \<times> DataType list) list
    \<Rightarrow> error + (string \<times> DataType list) list" where
  "commonProps_loop [] result = Inr result"
| "commonProps_loop (s # rest) result =
     (case vertexStorageProps (splatData s) of
        Inl e \<Rightarrow> Inl e
      | Inr ps \<Rightarrow> commonProps_loop rest (add_properties result ps))"

fun first_type :: "string \<times> DataType list \<Rightarrow> (string \<times> DataType) list" where
  "first_type (n, []) = []"
| "first_type (n, t # ts) = [(n, t)]"

definition getCommonProps :: "Splat list \<Rightarrow> error + (string \<times> DataType) list" where
  "getCommonProps splats =
     (case commonProps_loop splats [] of
        Inl e \<Rightarrow> Inl e
      | Inr result \<Rightarrow>
          Inr (concat (map first_type (filter (\<lambda>(n, v). length v = 1) result))))"

text \<open>Decimal digits of a count, as a template literal prints it.\<close>

definition digit_char :: "nat \<Rightarrow> char" where
  "digit_char d = char_of (d + 48)"

fun string_of_nat :: "nat \<Rightarrow> string" where
  "string_of_nat n =
     (let last_digit = [digit_char (n mod 10)]
      in if n < 10 then last_digit else string_of_nat (n div 10) @ last_digit)"

declare string_of_nat.simps [simp del]

definition shNames :: "string list" where
  "shNames = map (\<lambda>i. ''f_rest_'' @ string_of_nat i) [0 ..< 45]"

definition shBandCoeffs :: "nat list" where
  "shBandCoeffs = [0, 3, 8, 15]"

fun findIndex :: "('a \<Rightarrow> bool) \<Rightarrow> 'a list \<Rightarrow> nat option" where
  "findIndex P [] = None"
| "findIndex P (x # xs) = (if P x then Some 0 else map_option Suc (findIndex P xs))"

text \<open>\<open>{ '9': 1, '24': 2, '-1': 3 }[shNames.findIndex(v => !data.has(v))] ?? 0\<close>\<close>

definition calcSHBands :: "string list \<Rightarrow> nat" where
  "calcSHBands data =
     (case findIndex (\<lambda>v. v \<notin> set data) shNames of
        None \<Rightarrow> 3
      | Some i \<Rightarrow> if i = 9 then 1 else if i = 24 then 2 else 0)"

text \<open>\<open>parseInt(s, 10)\<close>: leading white space (the characters of it below U+0100), a sign, then the
  longest run of digits; NaN (\<open>None\<close>) when there is no digit.\<close>

definition is_space :: "char \<Rightarrow> bool" where
  "is_space c = (c \<in> set [CHR '' '', CHR 0x09, CHR 0x0A, CHR 0x0B, CHR 0x0C, CHR 0x0D, CHR 0xA0])"

definition is_digit :: "char \<Rightarrow> bool" where
  "is_digit c = (48 \<le> (of_char c :: nat) \<and> (of_char c :: nat) \<le> 57)"

definition digits_value :: "string \<Rightarrow> int" where
  "digits_value ds = foldl (\<lambda>a c. 10 * a + (int (of_char c) - 48)) 0 ds"

definition parse_digits :: "string \<Rightarrow> int option" where
  "parse_digits s =
     (let ds = takeWhile is_digit s
      in if ds = [] then None else Some (digits_value ds))"

definition parseInt :: "string \<Rightarrow> int option" where
  "parseInt s =
     (case dropWhile is_space s of
        [] \<Rightarrow> None
      | c # r \<Rightarrow>
          if c = CHR ''-'' then map_option uminus (parse_digits r)
          else if c = CHR ''+'' then parse_digits r
          else parse_digits (c # r))"

text \<open>The band filter of \<open>serializePly\<close>; a comparison with NaN or \<open>undefined\<close> is false.\<close>

definition keepSHProp :: "nat option \<Rightarrow> string \<Rightarrow> bool" where
  "keepSHProp maxBands n =
     (if take 7 n \<noteq> ''f_rest_'' then True
      else (case (parseInt (drop 7 n), arr_get [0, 9, 24, 45 :: int] (orElse maxBands 3)) of
              (Some i, Some bound) \<Rightarrow> i < bound
            | _ \<Rightarrow> False))"

section \<open>Bytes, buffers and the sink\<close>

text \<open>
  A byte of an output buffer is an unsigned 8-bit value, or the \<open>k\<close>-th byte of the
  little-endian binary32 encoding of a number (its rounding and bit pattern are not
  modelled). A \<open>DataView\<close> setter raises a RangeError when it would write past the end.
\<close>

datatype byte = U8 "8 word" | F32 real nat

definition TextEncoder_encode :: "string \<Rightarrow> byte list" where
  "TextEncoder_encode s = map (\<lambda>c. U8 (of_char c)) s"

definition write_at :: "nat \<Rightarrow> byte list \<Rightarrow> byte list \<Rightarrow> error + byte list" where
  "write_at off bs buf =
     (if off + length bs \<le> length buf
      then Inr (take off buf @ bs @ drop (off + length bs) buf)
      else Inl RangeError)"

definition setUint8 :: "byte list \<Rightarrow> nat \<Rightarrow> real \<Rightarrow> error + byte list" where
  "setUint8 buf off v = write_at off [U8 (ToUint8 v)] buf"

definition f32le :: "real \<Rightarrow> byte list" where
  "f32le v = [F32 v 0, F32 v 1, F32 v 2, F32 v 3]"

definition setFloat32 :: "byte list \<Rightarrow> nat \<Rightarrow> real \<Rightarrow> error + byte list" where
  "setFloat32 buf off v = write_at off (f32le v) buf"

definition u32le :: "32 word \<Rightarrow> byte list" where
  "u32le w = [U8 (ucast w), U8 (ucast (drop_bit 8 w)),
              U8 (ucast (drop_bit 16 w)), U8 (ucast (drop_bit 24 w))]"

definition setUint32 :: "byte list \<Rightarrow> nat \<Rightarrow> 32 word \<Rightarrow> error + byte list" where
  "setUint32 buf off w = write_at off (u32le w) buf"

text \<open>What a call of an encoder did: the buffers handed to \<open>writer.write\<close> in call order
  (with the \<open>finalWrite\<close> flag), the lines sent to \<open>console.error\<close>, and the exception
  it ended with, if any. The sink accepts every buffer.\<close>

record outcome =
  writes :: "(byte list \<times> bool) list"
  console :: "string list"
  raised :: "error option"

text \<open>
  \<open>SingleSplat\<close>: the reader is built for a list of member names and the settings;
  \<open>read(splat, i)\<close> leaves the transformed value of every member in \<open>data\<close>. Its
  arithmetic (matrices, quaternions, the spherical-harmonic rotation) is the collaborators';
  the model takes the reader as a parameter, the function from members, settings,
  collection and index to the \<open>data\<close> it leaves.
\<close>

type_synonym reader = "string list \<Rightarrow> SerializeSettings \<Rightarrow> Splat \<Rightarrow> nat \<Rightarrow> string \<Rightarrow> real"

text \<open>A sequence of \<open>DataView\<close> stores, done in order; the first that is out of range
  raises and ends the sequence.\<close>

datatype store = StUint8 nat real | StFloat32 nat real | StUint32 nat "32 word"

fun do_store :: "byte list \<Rightarrow> store \<Rightarrow> error + byte list" where
  "do_store buf (StUint8 off v) = setUint8 buf off v"
| "do_store buf (StFloat32 off v) = setFloat32 buf off v"
| "do_store buf (StUint32 off w) = setUint32 buf off w"

fun do_stores :: "byte list \<Rightarrow> store list \<Rightarrow> error + byte list" where
  "do_stores buf [] = Inr buf"
| "do_stores buf (st # rest) =
     (case do_store buf st of Inl e \<Rightarrow> Inl e | Inr b \<Rightarrow> do_stores b rest)"

fun join :: "string \<Rightarrow> string list \<Rightarrow> string" where
  "join sep [] = []"
| "join sep [x] = x"
| "join sep (x # y # rest) = x @ sep @ join sep (y # rest)"

section \<open>serializePly\<close>

text \<open>The staging buffer of the uncompressed encoder: the write offset, the buffer, and the
  buffers handed to the sink so far.\<close>

record ply_writer =
  pw_offset :: nat
  pw_buf :: "byte list"
  pw_writes :: "(byte list \<times> bool) list"

text \<open>The loop over \<open>props\<close> for one splat: one byte for a \<open>uchar\<close> property, a
  little-endian float of four bytes for every other type.\<close>

fun write_props :: "(string \<times> DataType) list \<Rightarrow> (string \<Rightarrow> real) \<Rightarrow> byte list \<Rightarrow> nat
    \<Rightarrow> error + (byte list \<times> nat)" where
  "write_props [] d buf offset = Inr (buf, offset)"
| "write_props ((n, t) # ps) d buf offset =
     (if t = T_uchar
      then (case setUint8 buf offset (d n) of
              Inl e \<Rightarrow> Inl e
            | Inr b \<Rightarrow> write_props ps d b (offset + 1))
      else (case setFloat32 buf offset (d n) of
              Inl e \<Rightarrow> Inl e
            | Inr b \<Rightarrow> write_props ps d b (offset + 4)))"

fun ply_rows :: "Host \<Rightarrow> GaussianFilter \<Rightarrow> (nat \<Rightarrow> string \<Rightarrow> real)
    \<Rightarrow> (string \<times> DataType) list \<Rightarrow> nat list \<Rightarrow> ply_writer \<Rightarrow> ply_writer \<times> error option" where
  "ply_rows St f rd props [] w = (w, None)"
| "ply_rows St f rd props (i # rest) w =
     (case test St f i of
        Inl e \<Rightarrow> (w, Some e)
      | Inr b \<Rightarrow>
          if \<not> b then ply_rows St f rd props rest w
          else (case write_props props (rd i) (pw_buf w) (pw_offset w) of
                  Inl e \<Rightarrow> (w, Some e)
                | Inr (buf, offset) \<Rightarrow>
                    if offset = length buf
                    then ply_rows St f rd props rest
                           \<lparr> pw_offset = 0, pw_buf = buf,
                             pw_writes = pw_writes w @ [(buf, False)] \<rparr>
                    else ply_rows St f rd props rest
                           \<lparr> pw_offset = offset, pw_buf = buf, pw_writes = pw_writes w \<rparr>))"

fun ply_splats :: "Host \<Rightarrow> GaussianFilter \<Rightarrow> (Splat \<Rightarrow> nat \<Rightarrow> string \<Rightarrow> real)
    \<Rightarrow> (string \<times> DataType) list \<Rightarrow> Splat list \<Rightarrow> ply_writer \<Rightarrow> ply_writer \<times> error option" where
  "ply_splats St f rd props [] w = (w, None)"
| "ply_splats St f rd props (s # rest) w =
     (case ply_rows St (filter_set f s) (rd s) props [0 ..< numSplats (splatData s)] w of
        (w', Some e) \<Rightarrow> (w', Some e)
      | (w', None) \<Rightarrow> ply_splats St (filter_set f s) rd props rest w')"

definition plyHeaderText :: "nat \<Rightarrow> (string \<times> DataType) list \<Rightarrow> string" where
  "plyHeaderText totalGaussians props =
     join [CHR 0x0A]
       ([''ply'', ''format binary_little_endian 1.0'',
         ''element vertex '' @ string_of_nat totalGaussians]
        @ map (\<lambda>(n, t). ''property '' @ DataTypeName t @ '' '' @ n) props
        @ [''end_header'', []])"

definition plyProps :: "SerializeSettings \<Rightarrow> (string \<times> DataType) list \<Rightarrow> (string \<times> DataType) list" where
  "plyProps settings common =
     (let internalProps = (if orElse (keepStateData settings) False
                           then [''transform''] else [''state'', ''transform''])
      in filter (\<lambda>p. keepSHProp (maxSHBands settings) (fst p))
           (filter (\<lambda>p. fst p \<notin> set internalProps) common))"

text \<open>\<open>serializePly\<close>. The count leaves the filter bound to the last collection; \<open>set\<close>
  rebinds all three closure variables before the next \<open>test\<close>, so the loops start from
  the filter as constructed.\<close>

definition serializePly :: "Host \<Rightarrow> reader \<Rightarrow> Splat list \<Rightarrow> SerializeSettings \<Rightarrow> outcome" where
  "serializePly St rd splats settings =
     (let flt = GaussianFilter_new settings
      in case countGaussians St splats flt of
           Inl e \<Rightarrow> \<lparr> writes = [], console = [], raised = Some e \<rparr>
         | Inr totalGaussians \<Rightarrow>
             if totalGaussians = 0 then \<lparr> writes = [], console = [], raised = None \<rparr>
             else (case getCommonProps splats of
                     Inl e \<Rightarrow> \<lparr> writes = [], console = [], raised = Some e \<rparr>
                   | Inr common \<Rightarrow>
                       let props = plyProps settings common;
                           header = TextEncoder_encode (plyHeaderText totalGaussians props);
                           buf = replicate (1024 * sum_list (map (\<lambda>p. DataTypeSize (snd p)) props)) (U8 0);
                           w0 = \<lparr> pw_offset = 0, pw_buf = buf, pw_writes = [(header, False)] \<rparr>
                       in (case ply_splats St flt (rd (map fst props) settings) props splats w0 of
                             (w, Some e) \<Rightarrow> \<lparr> writes = pw_writes w, console = [], raised = Some e \<rparr>
                           | (w, None) \<Rightarrow>
                               \<lparr> writes = (if pw_offset w > 0
                                            then pw_writes w @ [(take (pw_offset w) (pw_buf w), False)]
                                            else pw_writes w),
                                 console = [], raised = None \<rparr>)))"

section \<open>serializeSplat\<close>

definition SH_C0 :: real where
  "SH_C0 = 0.28209479177387814"

definition clamp255 :: "real \<Rightarrow> real" where
  "clamp255 x = max 0 (min 255 x)"

definition splatProps :: "string list" where
  "splatProps = [''x'', ''y'', ''z'', ''opacity'', ''rot_0'', ''rot_1'', ''rot_2'', ''rot_3'',
                 ''f_dc_0'', ''f_dc_1'', ''f_dc_2'', ''scale_0'', ''scale_1'', ''scale_2'']"

definition splat_record :: "nat \<Rightarrow> (string \<Rightarrow> real) \<Rightarrow> store list" where
  "splat_record off d =
     [StFloat32 (off + 0) (d ''x''),
      StFloat32 (off + 4) (d ''y''),
      StFloat32 (off + 8) (d ''z''),
      StFloat32 (off + 12) (exp (d ''scale_0'')),
      StFloat32 (off + 16) (exp (d ''scale_1'')),
      StFloat32 (off + 20) (exp (d ''scale_2'')),
      StUint8 (off + 24) (clamp255 ((0.5 + SH_C0 * d ''f_dc_0'') * 255)),
      StUint8 (off + 25) (clamp255 ((0.5 + SH_C0 * d ''f_dc_1'') * 255)),
      StUint8 (off + 26) (clamp255 ((0.5 + SH_C0 * d ''f_dc_2'') * 255)),
      StUint8 (off + 27) (clamp255 ((1 / (1 + exp (- d ''opacity''))) * 255)),
      StUint8 (off + 28) (clamp255 (d ''rot_0'' * 128 + 128)),
      StUint8 (off + 29) (clamp255 (d ''rot_1'' * 128 + 128)),
      StUint8 (off + 30) (clamp255 (d ''rot_2'' * 128 + 128)),
      StUint8 (off + 31) (clamp255 (d ''rot_3'' * 128 + 128))]"

fun splat_rows :: "Host \<Rightarrow> GaussianFilter \<Rightarrow> (nat \<Rightarrow> string \<Rightarrow> real) \<Rightarrow> nat list
    \<Rightarrow> nat \<times> byte list \<Rightarrow> error + (nat \<times> byte list)" where
  "splat_rows St f rd [] st = Inr st"
| "splat_rows St f rd (i # rest) (idx, buf) =
     (case test St f i of
        Inl e \<Rightarrow> Inl e
      | Inr b \<Rightarrow>
          if \<not> b then splat_rows St f rd rest (idx, buf)
          else (case do_stores buf (splat_record (idx * 32) (rd i)) of
                  Inl e \<Rightarrow> Inl e
                | Inr buf' \<Rightarrow> splat_rows St f rd rest (idx + 1, buf')))"

fun splat_splats :: "Host \<Rightarrow> GaussianFilter \<Rightarrow> (Splat \<Rightarrow> nat \<Rightarrow> string \<Rightarrow> real) \<Rightarrow> Splat list
    \<Rightarrow> nat \<times> byte list \<Rightarrow> error + (nat \<times> byte list)" where
  "splat_splats St f rd [] st = Inr st"
| "splat_splats St f rd (s # rest) st =
     (case splat_rows St (filter_set f s) (rd s) [0 ..< numSplats (splatData s)] st of
        Inl e \<Rightarrow> Inl e
      | Inr st' \<Rightarrow> splat_splats St (filter_set f s) rd rest st')"

definition serializeSplat :: "Host \<Rightarrow> reader \<Rightarrow> Splat list \<Rightarrow> SerializeSettings \<Rightarrow> outcome" where
  "serializeSplat St rd splats options =
     (let flt = GaussianFilter_new options
      in case countGaussians St splats flt of
           Inl e \<Rightarrow> \<lparr> writes = [], console = [], raised = Some e \<rparr>
         | Inr totalGaussians \<Rightarrow>
             if totalGaussians = 0 then \<lparr> writes = [], console = [], raised = None \<rparr>
             else (case splat_splats St flt (rd splatProps options) splats
                          (0, replicate (totalGaussians * 32) (U8 0)) of
                     Inl e \<Rightarrow> \<lparr> writes = [], console = [], raised = Some e \<rparr>
                   | Inr (idx, result) \<Rightarrow>
                       \<lparr> writes = [(result, True)], console = [], raised = None \<rparr>))"

section \<open>Chunk: the quantizer of 256 splats\<close>

definition Chunk_members :: "string list" where
  "Chunk_members = [''x'', ''y'', ''z'',
                    ''scale_0'', ''scale_1'', ''scale_2'',
                    ''f_dc_0'', ''f_dc_1'', ''f_dc_2'', ''opacity'',
                    ''rot_0'', ''rot_1'', ''rot_2'', ''rot_3'']"

record Chunk =
  c_size :: nat
  c_data :: "string \<Rightarrow> real list"
  position :: "32 word list"
  rotation :: "32 word list"
  c_scale :: "32 word list"
  color :: "32 word list"

definition Chunk_new :: "nat \<Rightarrow> Chunk" where
  "Chunk_new sz =
     \<lparr> c_size = sz,
       c_data = (\<lambda>m. if m \<in> set Chunk_members then replicate sz 0 else []),
       position = replicate sz 0, rotation = replicate sz 0,
       c_scale = replicate sz 0, color = replicate sz 0 \<rparr>"

text \<open>\<open>set(index, splat)\<close>; a store past the end of a typed array is ignored, as
  \<open>xs[i := v]\<close> is. The arrays are \<open>Float32Array\<close>s; the rounding of the stored
  value to single precision is not written out.\<close>

definition Chunk_set :: "Chunk \<Rightarrow> nat \<Rightarrow> (string \<Rightarrow> real) \<Rightarrow> Chunk" where
  "Chunk_set c index d =
     c \<lparr> c_data := (\<lambda>m. if m \<in> set Chunk_members then (c_data c m)[index := d m]
                         else c_data c m) \<rparr>"

record MinMax =
  mmin :: real
  mmax :: real

text \<open>\<open>calcMinMax\<close>. On an empty array the code returns \<open>undefined\<close> bounds; the model
  leaves them unspecified (\<open>hd []\<close>).\<close>

definition calcMinMax :: "real list \<Rightarrow> MinMax" where
  "calcMinMax d =
     foldl (\<lambda>m v. \<lparr> mmin = min (mmin m) v, mmax = max (mmax m) v \<rparr>)
       \<lparr> mmin = hd d, mmax = hd d \<rparr> (tl d)"

definition normalize_val :: "real \<Rightarrow> real \<Rightarrow> real \<Rightarrow> real" where
  "normalize_val x mn mx =
     (if x \<le> mn then 0
      else if x \<ge> mx then 1
      else if mx - mn < 0.00001 then 0 else (x - mn) / (mx - mn))"

definition clamp :: "real \<Rightarrow> real \<Rightarrow> real \<Rightarrow> real" where
  "clamp v mn mx = max mn (min mx v)"

text \<open>\<open>1 << bits\<close> is a shift of a 32-bit signed integer by \<open>bits\<close> modulo 32.\<close>

definition shl1 :: "nat \<Rightarrow> int" where
  "shl1 bits = sint (push_bit (bits mod 32) (1 :: 32 word))"

definition packUnorm :: "real \<Rightarrow> nat \<Rightarrow> int" where
  "packUnorm v bits =
     (let t = shl1 bits - 1
      in max 0 (min t \<lfloor>v * real_of_int t + 0.5\<rfloor>))"

definition pack111011 :: "real \<Rightarrow> real \<Rightarrow> real \<Rightarrow> 32 word" where
  "pack111011 x y z =
     push_bit 21 (word_of_int (packUnorm x 11)) OR
     push_bit 11 (word_of_int (packUnorm y 10)) OR
     word_of_int (packUnorm z 11)"

definition pack8888 :: "real \<Rightarrow> real \<Rightarrow> real \<Rightarrow> real \<Rightarrow> 32 word" where
  "pack8888 x y z w =
     push_bit 24 (word_of_int (packUnorm x 8)) OR
     push_bit 16 (word_of_int (packUnorm y 8)) OR
     push_bit 8 (word_of_int (packUnorm z 8)) OR
     word_of_int (packUnorm w 8)"

text \<open>\<open>Quat.normalize\<close> of the engine: the components divided by the length, the identity
  rotation for the zero quaternion. The list is \<open>[x, y, z, w]\<close>.\<close>

definition Quat_normalize :: "real list \<Rightarrow> real list" where
  "Quat_normalize q =
     (let len = sqrt (sum_list (map (\<lambda>c. c * c) q))
      in if len = 0 then [0, 0, 0, 1] else map (\<lambda>c. c * (1 / len)) q)"

text \<open>\<open>a.reduce((curr, v, i) => (Math.abs(v) > Math.abs(a[curr]) ? i : curr), 0)\<close>\<close>

definition largest_index :: "real list \<Rightarrow> nat" where
  "largest_index a =
     foldl (\<lambda>curr i. if \<bar>a ! i\<bar> > \<bar>a ! curr\<bar> then i else curr) 0 [0 ..< length a]"

definition packRot :: "real \<Rightarrow> real \<Rightarrow> real \<Rightarrow> real \<Rightarrow> 32 word" where
  "packRot x y z w =
     (let q = Quat_normalize [x, y, z, w];
          largest = largest_index q;
          a = (if q ! largest < 0 then map uminus q else q);
          nrm = sqrt 2 * 0.5
      in foldl (\<lambda>result i. if i \<noteq> largest
                             then push_bit 10 result OR word_of_int (packUnorm (a ! i * nrm + 0.5) 10)
                             else result)
           (word_of_nat largest) [0 ..< 4])"

record ChunkBounds =
  px :: MinMax
  py :: MinMax
  pz :: MinMax
  sx :: MinMax
  sy :: MinMax
  sz :: MinMax
  cr :: MinMax
  cg :: MinMax
  cb :: MinMax

definition clampScale :: "MinMax \<Rightarrow> MinMax" where
  "clampScale m = \<lparr> mmin = clamp (mmin m) (- 20) 20, mmax = clamp (mmax m) (- 20) 20 \<rparr>"

definition toColor :: "real list \<Rightarrow> real list" where
  "toColor f_dc = map (\<lambda>v. v * SH_C0 + 0.5) f_dc"

text \<open>The nine ranges \<open>pack\<close> computes and returns.\<close>

definition packBounds :: "(string \<Rightarrow> real list) \<Rightarrow> ChunkBounds" where
  "packBounds d =
     \<lparr> px = calcMinMax (d ''x''),
       py = calcMinMax (d ''y''),
       pz = calcMinMax (d ''z''),
       sx = clampScale (calcMinMax (d ''scale_0'')),
       sy = clampScale (calcMinMax (d ''scale_1'')),
       sz = clampScale (calcMinMax (d ''scale_2'')),
       cr = calcMinMax (toColor (d ''f_dc_0'')),
       cg = calcMinMax (toColor (d ''f_dc_1'')),
       cb = calcMinMax (toColor (d ''f_dc_2'')) \<rparr>"

text \<open>\<open>pack()\<close>: the ranges, the colour conversion done in place, and the four packed
  words of every slot. Every array of a chunk has \<open>size\<close> entries.\<close>

definition pack :: "Chunk \<Rightarrow> Chunk \<times> ChunkBounds" where
  "pack c =
     (let d = c_data c;
          b = packBounds d;
          f_dc_0 = toColor (d ''f_dc_0'');
          f_dc_1 = toColor (d ''f_dc_1'');
          f_dc_2 = toColor (d ''f_dc_2'');
          slots = [0 ..< c_size c]
      in (c \<lparr> c_data := d (''f_dc_0'' := f_dc_0, ''f_dc_1'' := f_dc_1, ''f_dc_2'' := f_dc_2),
              position := map (\<lambda>i. pack111011
                                 (normalize_val (d ''x'' ! i) (mmin (px b)) (mmax (px b)))
                                 (normalize_val (d ''y'' ! i) (mmin (py b)) (mmax (py b)))
                                 (normalize_val (d ''z'' ! i) (mmin (pz b)) (mmax (pz b)))) slots,
              rotation := map (\<lambda>i. packRot (d ''rot_0'' ! i) (d ''rot_1'' ! i)
                                             (d ''rot_2'' ! i) (d ''rot_3'' ! i)) slots,
              c_scale := map (\<lambda>i. pack111011
                                 (normalize_val (d ''scale_0'' ! i) (mmin (sx b)) (mmax (sx b)))
                                 (normalize_val (d ''scale_1'' ! i) (mmin (sy b)) (mmax (sy b)))
                                 (normalize_val (d ''scale_2'' ! i) (mmin (sz b)) (mmax (sz b)))) slots,
              color := map (\<lambda>i. pack8888
                                 (normalize_val (f_dc_0 ! i) (mmin (cr b)) (mmax (cr b)))
                                 (normalize_val (f_dc_1 ! i) (mmin (cg b)) (mmax (cg b)))
                                 (normalize_val (f_dc_2 ! i) (mmin (cb b)) (mmax (cb b)))
                                 (1 / (1 + exp (- (d ''opacity'' ! i))))) slots \<rparr>,
          b))"

section \<open>sortSplats\<close>

record CompressedIndex =
  splatIndex :: nat
  ci_i :: nat
  globalIndex :: nat

definition Part1By2 :: "32 word \<Rightarrow> 32 word" where
  "Part1By2 x0 =
     (let x1 = x0 AND 0x000003ff;
          x2 = (x1 XOR push_bit 16 x1) AND 0xff0000ff;
          x3 = (x2 XOR push_bit 8 x2) AND 0x0300f00f;
          x4 = (x3 XOR push_bit 4 x3) AND 0x030c30c3;
          x5 = (x4 XOR push_bit 2 x4) AND 0x09249249
      in x5)"

text \<open>The arguments are numbers (possibly NaN); the bit operations take their \<open>ToInt32\<close>,
  the sum is a sum of numbers.\<close>

definition encodeMorton3 :: "num \<Rightarrow> num \<Rightarrow> num \<Rightarrow> int" where
  "encodeMorton3 x y z =
     sint (push_bit 2 (Part1By2 (ToInt32 (Some z)))) +
     sint (push_bit 1 (Part1By2 (ToInt32 (Some y)))) +
     sint (Part1By2 (ToInt32 (Some x)))"

record Extents =
  minx :: real
  maxx :: real
  miny :: real
  maxy :: real
  minz :: real
  maxz :: real

definition extend :: "Extents option \<Rightarrow> real \<Rightarrow> real \<Rightarrow> real \<Rightarrow> Extents option" where
  "extend ext x y z =
     (case ext of
        None \<Rightarrow> Some \<lparr> minx = x, maxx = x, miny = y, maxy = y, minz = z, maxz = z \<rparr>
      | Some e \<Rightarrow>
          Some \<lparr> minx = (if x < minx e then x else minx e),
                 maxx = (if x < minx e then maxx e else if x > maxx e then x else maxx e),
                 miny = (if y < miny e then y else miny e),
                 maxy = (if y < miny e then maxy e else if y > maxy e then y else maxy e),
                 minz = (if z < minz e then z else minz e),
                 maxz = (if z < minz e then maxz e else if z > maxz e then z else maxz e) \<rparr>)"

definition not_deleted :: "Host \<Rightarrow> num list \<Rightarrow> nat \<Rightarrow> bool" where
  "not_deleted St st i = (ToInt32 (arr_get st i) AND word_of_int (State_deleted St) = 0)"

fun extents_rows :: "Host \<Rightarrow> num list \<Rightarrow> (nat \<Rightarrow> real) \<Rightarrow> nat list \<Rightarrow> Extents option
    \<Rightarrow> Extents option" where
  "extents_rows St st cs [] ext = ext"
| "extents_rows St st cs (i # rest) ext =
     (if not_deleted St st i
      then extents_rows St st cs rest (extend ext (cs (i * 3 + 0)) (cs (i * 3 + 1)) (cs (i * 3 + 2)))
      else extents_rows St st cs rest ext)"

text \<open>Both loops of \<open>sortSplats\<close> index the state array of every collection that has a
  splat; a collection without that array raises there.\<close>

fun extents_splats :: "Host \<Rightarrow> Splat list \<Rightarrow> Extents option \<Rightarrow> error + Extents option" where
  "extents_splats St [] ext = Inr ext"
| "extents_splats St (s # rest) ext =
     (case getProp (splatData s) ''state'' of
        None \<Rightarrow> if numSplats (splatData s) = 0 then extents_splats St rest ext
                else Inl TypeError
      | Some st \<Rightarrow>
          extents_splats St rest
            (extents_rows St st (centers s) [0 ..< numSplats (splatData s)] ext))"

text \<open>\<open>Math.min(1023, Math.floor(1024 * (x - minx) / xlen))\<close>; a zero extent divides by
  zero.\<close>

definition gridIndex :: "real \<Rightarrow> real \<Rightarrow> real \<Rightarrow> num" where
  "gridIndex x mn len =
     (if len = 0
      then (if 1024 * (x - mn) > 0 then Num 1023
            else if 1024 * (x - mn) < 0 then NegInf else NaN)
      else Num (min 1023 (real_of_int \<lfloor>1024 * (x - mn) / len\<rfloor>)))"

definition mortonCode :: "Extents option \<Rightarrow> real \<Rightarrow> real \<Rightarrow> real \<Rightarrow> 32 word" where
  "mortonCode ext x y z =
     (case ext of
        None \<Rightarrow> word_of_int (encodeMorton3 NaN NaN NaN)
      | Some e \<Rightarrow>
          word_of_int (encodeMorton3 (gridIndex x (minx e) (maxx e - minx e))
                                     (gridIndex y (miny e) (maxy e - miny e))
                                     (gridIndex z (minz e) (maxz e - minz e))))"

text \<open>\<open>morton[idx++] = ...\<close>: a store past the end of the array is ignored.\<close>

fun morton_rows :: "Host \<Rightarrow> Extents option \<Rightarrow> num list \<Rightarrow> (nat \<Rightarrow> real) \<Rightarrow> nat list
    \<Rightarrow> 32 word list \<times> nat \<Rightarrow> 32 word list \<times> nat" where
  "morton_rows St ext st cs [] acc = acc"
| "morton_rows St ext st cs (i # rest) (morton, idx) =
     (if not_deleted St st i
      then morton_rows St ext st cs rest
             (morton[idx := mortonCode ext (cs (i * 3 + 0)) (cs (i * 3 + 1)) (cs (i * 3 + 2))],
              idx + 1)
      else morton_rows St ext st cs rest (morton, idx))"

fun morton_splats :: "Host \<Rightarrow> Extents option \<Rightarrow> Splat list \<Rightarrow> 32 word list \<times> nat
    \<Rightarrow> error + (32 word list \<times> nat)" where
  "morton_splats St ext [] acc = Inr acc"
| "morton_splats St ext (s # rest) acc =
     (case getProp (splatData s) ''state'' of
        None \<Rightarrow> if numSplats (splatData s) = 0 then morton_splats St ext rest acc
                else Inl TypeError
      | Some st \<Rightarrow>
          morton_splats St ext rest
            (morton_rows St ext st (centers s) [0 ..< numSplats (splatData s)] acc))"

text \<open>
  \<open>indices.sort((a, b) => morton[a.globalIndex] - morton[b.globalIndex])\<close>: the sort of
  the language is stable, which \<open>sort_key\<close> is. The encoder numbers the survivors by
  their position, so \<open>globalIndex\<close> is below the length of both arrays.
\<close>

definition sortSplats :: "Host \<Rightarrow> Splat list \<Rightarrow> CompressedIndex list
    \<Rightarrow> error + CompressedIndex list" where
  "sortSplats St splats indices =
     (case extents_splats St splats None of
        Inl e \<Rightarrow> Inl e
      | Inr ext \<Rightarrow>
          (case morton_splats St ext splats (replicate (length indices) 0, 0) of
             Inl e \<Rightarrow> Inl e
           | Inr (morton, idx) \<Rightarrow>
               Inr (sort_key (\<lambda>a. unat (morton ! globalIndex a)) indices)))"

section \<open>serializePlyCompressed\<close>

fun survivors_rows :: "Host \<Rightarrow> GaussianFilter \<Rightarrow> nat \<Rightarrow> nat list \<Rightarrow> CompressedIndex list
    \<Rightarrow> error + CompressedIndex list" where
  "survivors_rows St f si [] indices = Inr indices"
| "survivors_rows St f si (i # rest) indices =
     (case test St f i of
        Inl e \<Rightarrow> Inl e
      | Inr b \<Rightarrow>
          survivors_rows St f si rest
            (if b then indices @ [\<lparr> splatIndex = si, ci_i = i, globalIndex = length indices \<rparr>]
             else indices))"

fun survivors_splats :: "Host \<Rightarrow> GaussianFilter \<Rightarrow> Splat list \<Rightarrow> nat \<Rightarrow> CompressedIndex list
    \<Rightarrow> error + CompressedIndex list" where
  "survivors_splats St f [] si indices = Inr indices"
| "survivors_splats St f (s # rest) si indices =
     (case survivors_rows St (filter_set f s) si [0 ..< numSplats (splatData s)] indices of
        Inl e \<Rightarrow> Inl e
      | Inr indices' \<Rightarrow> survivors_splats St (filter_set f s) rest (si + 1) indices')"

definition chunkProps :: "string list" where
  "chunkProps = [''min_x'', ''min_y'', ''min_z'',
                 ''max_x'', ''max_y'', ''max_z'',
                 ''min_scale_x'', ''min_scale_y'', ''min_scale_z'',
                 ''max_scale_x'', ''max_scale_y'', ''max_scale_z'',
                 ''min_r'', ''min_g'', ''min_b'',
                 ''max_r'', ''max_g'', ''max_b'']"

definition vertexProps :: "string list" where
  "vertexProps = [''packed_position'', ''packed_rotation'', ''packed_scale'', ''packed_color'']"

fun splatBands :: "Splat list \<Rightarrow> error + nat list" where
  "splatBands [] = Inr []"
| "splatBands (s # rest) =
     (case getVertexProperties (splatData s) of
        Inl e \<Rightarrow> Inl e
      | Inr names \<Rightarrow> (case splatBands rest of
                        Inl e \<Rightarrow> Inl e
                      | Inr bs \<Rightarrow> Inr (calcSHBands names # bs)))"

text \<open>\<open>Math.min(maxSHBands ?? 3, Math.max(...splatBands))\<close>, for at least one collection
  (the encoder has returned before when there is none).\<close>

definition outputSHBands :: "nat option \<Rightarrow> nat list \<Rightarrow> nat" where
  "outputSHBands maxBands bands = min (orElse maxBands 3) (foldl max 0 bands)"

definition compressedHeaderText :: "string \<Rightarrow> nat \<Rightarrow> nat \<Rightarrow> nat \<Rightarrow> nat \<Rightarrow> string" where
  "compressedHeaderText version numChunks nSplats shBands shCoeffs =
     (let shHeader = (if shBands \<noteq> 0
                      then [''element sh '' @ string_of_nat nSplats]
                           @ map (\<lambda>i. ''property uchar f_rest_'' @ string_of_nat i) [0 ..< shCoeffs * 3]
                      else [])
      in join [CHR 0x0A]
           ([''ply'', ''format binary_little_endian 1.0'',
             ''comment Generated by SuperSplat '' @ version,
             ''element chunk '' @ string_of_nat numChunks]
            @ map (\<lambda>p. ''property float '' @ p) chunkProps
            @ [''element vertex '' @ string_of_nat nSplats]
            @ map (\<lambda>p. ''property uint '' @ p) vertexProps
            @ shHeader
            @ [''end_header'' @ [CHR 0x0A]]))"

text \<open>The quantized spherical-harmonic bytes of one splat.\<close>

text \<open>
  \<open>const nvalue = v / 8 + 0.5\<close> and \<open>Math.max(0, Math.min(255, Math.trunc(nvalue * 256)))\<close>
  in double arithmetic. A product \<open>nvalue * 256\<close> beyond the largest double is an infinity
  in the code and a large real here; the clamp returns 0 or 255 for both.
\<close>

definition quantizeSH :: "real \<Rightarrow> real" where
  "quantizeSH v = (let nvalue = fl64 (fl64 (v / 8) + 0.5)
                   in max 0 (min 255 (real_of_int (trunc (fl64 (nvalue * 256))))))"

definition sh_stores :: "nat \<Rightarrow> nat \<Rightarrow> (string \<Rightarrow> real) \<Rightarrow> store list" where
  "sh_stores off n d = map (\<lambda>k. StUint8 (off + k) (quantizeSH (d (shNames ! k)))) [0 ..< n]"

text \<open>The encoder's mutable state inside the chunk loop: the output buffer, the chunk and
  the \<open>data\<close> the reader left last.\<close>

type_synonym cstate = "byte list \<times> Chunk \<times> (string \<Rightarrow> real)"

fun chunk_rows :: "(Splat \<Rightarrow> nat \<Rightarrow> string \<Rightarrow> real) \<Rightarrow> Splat list \<Rightarrow> CompressedIndex list
    \<Rightarrow> nat \<Rightarrow> nat \<Rightarrow> nat \<Rightarrow> nat list \<Rightarrow> cstate \<Rightarrow> error + cstate" where
  "chunk_rows rd splats indices shOffset shCoeffs i [] st = Inr st"
| "chunk_rows rd splats indices shOffset shCoeffs i (j # rest) (buf, chunk, d0) =
     (case arr_get indices (i * 256 + j) of
        None \<Rightarrow> Inl TypeError
      | Some index \<Rightarrow>
          (case arr_get splats (splatIndex index) of
             None \<Rightarrow> Inl TypeError
           | Some s \<Rightarrow>
               let d = rd s (ci_i index);
                   chunk' = Chunk_set chunk j d
               in (case do_stores buf
                          (sh_stores (shOffset + (i * 256 + j) * shCoeffs * 3) (shCoeffs * 3) d) of
                     Inl e \<Rightarrow> Inl e
                   | Inr buf' \<Rightarrow>
                       chunk_rows rd splats indices shOffset shCoeffs i rest (buf', chunk', d))))"

definition pad_chunk :: "Chunk \<Rightarrow> nat \<Rightarrow> (string \<Rightarrow> real) \<Rightarrow> Chunk" where
  "pad_chunk chunk num d =
     (if num < 256 then foldl (\<lambda>c j. Chunk_set c j d) chunk [num ..< 256] else chunk)"

definition bounds_stores :: "nat \<Rightarrow> ChunkBounds \<Rightarrow> store list" where
  "bounds_stores off r =
     [StFloat32 (off + 0) (mmin (px r)), StFloat32 (off + 4) (mmin (py r)),
      StFloat32 (off + 8) (mmin (pz r)), StFloat32 (off + 12) (mmax (px r)),
      StFloat32 (off + 16) (mmax (py r)), StFloat32 (off + 20) (mmax (pz r)),
      StFloat32 (off + 24) (mmin (sx r)), StFloat32 (off + 28) (mmin (sy r)),
      StFloat32 (off + 32) (mmin (sz r)), StFloat32 (off + 36) (mmax (sx r)),
      StFloat32 (off + 40) (mmax (sy r)), StFloat32 (off + 44) (mmax (sz r)),
      StFloat32 (off + 48) (mmin (cr r)), StFloat32 (off + 52) (mmin (cg r)),
      StFloat32 (off + 56) (mmin (cb r)), StFloat32 (off + 60) (mmax (cr r)),
      StFloat32 (off + 64) (mmax (cg r)), StFloat32 (off + 68) (mmax (cb r))]"

definition vertex_stores :: "nat \<Rightarrow> Chunk \<Rightarrow> nat \<Rightarrow> store list" where
  "vertex_stores offset chunk chunkSplats =
     concat (map (\<lambda>j. [StUint32 (offset + j * 4 * 4 + 0) (position chunk ! j),
                        StUint32 (offset + j * 4 * 4 + 4) (rotation chunk ! j),
                        StUint32 (offset + j * 4 * 4 + 8) (c_scale chunk ! j),
                        StUint32 (offset + j * 4 * 4 + 12) (color chunk ! j)])
                 [0 ..< chunkSplats])"

text \<open>One pass of the loop over the chunks.\<close>

definition chunk_step :: "(Splat \<Rightarrow> nat \<Rightarrow> string \<Rightarrow> real) \<Rightarrow> Splat list \<Rightarrow> CompressedIndex list
    \<Rightarrow> nat \<Rightarrow> nat \<Rightarrow> nat \<Rightarrow> nat \<Rightarrow> nat \<Rightarrow> nat \<Rightarrow> cstate \<Rightarrow> error + cstate" where
  "chunk_step rd splats indices nSplats chunkOffset vertexOffset shOffset shCoeffs i st =
     (let num = min nSplats ((i + 1) * 256) - i * 256
      in case chunk_rows rd splats indices shOffset shCoeffs i [0 ..< num] st of
           Inl e \<Rightarrow> Inl e
         | Inr (buf1, chunk1, d1) \<Rightarrow>
             (case pack (pad_chunk chunk1 num d1) of
                (chunk2, result) \<Rightarrow>
                  (case do_stores buf1 (bounds_stores (chunkOffset + i * 18 * 4) result) of
                     Inl e \<Rightarrow> Inl e
                   | Inr buf2 \<Rightarrow>
                       (case do_stores buf2
                               (vertex_stores (vertexOffset + i * 256 * 4 * 4) chunk2
                                  (min nSplats ((i + 1) * 256) - i * 256)) of
                          Inl e \<Rightarrow> Inl e
                        | Inr buf3 \<Rightarrow> Inr (buf3, chunk2, d1)))))"

fun chunk_loop :: "(Splat \<Rightarrow> nat \<Rightarrow> string \<Rightarrow> real) \<Rightarrow> Splat list \<Rightarrow> CompressedIndex list
    \<Rightarrow> nat \<Rightarrow> nat \<Rightarrow> nat \<Rightarrow> nat \<Rightarrow> nat \<Rightarrow> nat list \<Rightarrow> cstate \<Rightarrow> error + cstate" where
  "chunk_loop rd splats indices nSplats chunkOffset vertexOffset shOffset shCoeffs [] st = Inr st"
| "chunk_loop rd splats indices nSplats chunkOffset vertexOffset shOffset shCoeffs (i # rest) st =
     (case chunk_step rd splats indices nSplats chunkOffset vertexOffset shOffset shCoeffs i st of
        Inl e \<Rightarrow> Inl e
      | Inr st' \<Rightarrow>
          chunk_loop rd splats indices nSplats chunkOffset vertexOffset shOffset shCoeffs rest st')"

definition compressedMembers :: "nat \<Rightarrow> string list" where
  "compressedMembers shCoeffs = Chunk_members @ take (shCoeffs * 3) shNames"

text \<open>The part of \<open>serializePlyCompressed\<close> after the survivors are known to exist.\<close>

definition compressedBody :: "Host \<Rightarrow> reader \<Rightarrow> string \<Rightarrow> Splat list \<Rightarrow> SerializeSettings
    \<Rightarrow> CompressedIndex list \<Rightarrow> error + byte list" where
  "compressedBody St rd version splats options indices =
     (let nSplats = length indices;
          numChunks = (nSplats + 255) div 256
      in case splatBands splats of
           Inl e \<Rightarrow> Inl e
         | Inr bands \<Rightarrow>
             let shBands = outputSHBands (maxSHBands options) bands;
                 shCoeffs = shBandCoeffs ! shBands;
                 header = TextEncoder_encode
                            (compressedHeaderText version numChunks nSplats shBands shCoeffs);
                 total = length header + numChunks * length chunkProps * 4
                         + nSplats * length vertexProps * 4 + shCoeffs * 3 * nSplats;
                 result = header @ replicate (total - length header) (U8 0);
                 chunkOffset = length header;
                 vertexOffset = chunkOffset + numChunks * length chunkProps * 4;
                 shOffset = vertexOffset + nSplats * 4 * 4
             in (case sortSplats St splats indices of
                   Inl e \<Rightarrow> Inl e
                 | Inr ordered \<Rightarrow>
                     (case chunk_loop (rd (compressedMembers shCoeffs) options) splats ordered
                             nSplats chunkOffset vertexOffset shOffset shCoeffs
                             [0 ..< numChunks]
                             (result, Chunk_new 256, (\<lambda>m. 0)) of
                        Inl e \<Rightarrow> Inl e
                      | Inr (buf, chunk, d) \<Rightarrow> Inr buf)))"

definition serializePlyCompressed :: "Host \<Rightarrow> reader \<Rightarrow> string \<Rightarrow> Splat list
    \<Rightarrow> SerializeSettings \<Rightarrow> outcome" where
  "serializePlyCompressed St rd version splats options =
     (case survivors_splats St (GaussianFilter_new options) splats 0 [] of
        Inl e \<Rightarrow> \<lparr> writes = [], console = [], raised = Some e \<rparr>
      | Inr indices \<Rightarrow>
          if length indices = 0
          then \<lparr> writes = [], console = [''nothing to export''], raised = None \<rparr>
          else (case compressedBody St rd version splats options indices of
                  Inl e \<Rightarrow> \<lparr> writes = [], console = [], raised = Some e \<rparr>
                | Inr result \<Rightarrow> \<lparr> writes = [(result, True)], console = [], raised = None \<rparr>))"

section \<open>Reference layout of the compressed file\<close>














text \<open>
  The decoder the specification describes for a packed rotation (the encoder's sources have
  none): the index in the top two bits, three 10-bit fields mapped back through
  \<open>(t - 0.5) * sqrt 2\<close>, and the component of that index rebuilt, non-negative, from the
  unit norm.
\<close>

definition unpackRot :: "32 word \<Rightarrow> real list" where
  "unpackRot w =
     (let largest = unat (drop_bit 30 w);
          a = (real (unat (take_bit 10 (drop_bit 20 w))) / 1023 - 1 / 2) * sqrt 2;
          b = (real (unat (take_bit 10 (drop_bit 10 w))) / 1023 - 1 / 2) * sqrt 2;
          c = (real (unat (take_bit 10 w)) / 1023 - 1 / 2) * sqrt 2;
          m = sqrt (max 0 (1 - (a * a + b * b + c * c)))
      in if largest = 0 then [m, a, b, c]
         else if largest = 1 then [a, m, b, c]
         else if largest = 2 then [a, b, m, c]
         else [a, b, c, m])"

section \<open>Example inputs\<close>

text \<open>The host of the examples: two values of the \<open>State\<close> enumeration, and for
  \<open>Math.exp\<close> the double nearest to the exponential.\<close>

definition exampleState :: Host where
  "exampleState = \<lparr> State_selected = 1, State_deleted = 4,
                    engine_exp = (\<lambda>x. round64 (exp x)) \<rparr>"

definition defaultSettings :: SerializeSettings where
  "defaultSettings =
     \<lparr> maxSHBands = None, selected = None, minOpacity = None, removeInvalid = None,
       keepStateData = None, keepWorldTransform = None, keepColorTint = None \<rparr>"

text \<open>Five splats: a deleted one, an unselected one, a selected one of opacity 0, a selected
  one of infinite opacity and a selected one of opacity 0.\<close>

definition filterExample :: Splat where
  "filterExample =
     \<lparr> splatData =
         \<lparr> numSplats = 5,
           elements =
             [\<lparr> ename = ''vertex'',
                properties =
                  [\<lparr> pname = ''state'', ptype = T_uchar,
                     storage = Some [Num 4, Num 0, Num 1, Num 1, Num 1] \<rparr>,
                   \<lparr> pname = ''opacity'', ptype = T_float,
                     storage = Some [Num 0, Num 0, Num 0, PosInf, Num 0] \<rparr>] \<rparr>] \<rparr>,
       centers = (\<lambda>k. 0) \<rparr>"

text \<open>Two splats, a deleted one and a live one, in a collection that has a state array and
  no opacity array.\<close>

definition bareExample :: Splat where
  "bareExample =
     \<lparr> splatData =
         \<lparr> numSplats = 2,
           elements =
             [\<lparr> ename = ''vertex'',
                properties =
                  [\<lparr> pname = ''state'', ptype = T_uchar, storage = Some [Num 4, Num 0] \<rparr>] \<rparr>] \<rparr>,
       centers = (\<lambda>k. 0) \<rparr>"


text \<open>Two collections of one splat each; only the first has the property \<open>foo\<close>.\<close>

definition commonA :: Splat where
  "commonA =
     \<lparr> splatData =
         \<lparr> numSplats = 1,
           elements =
             [\<lparr> ename = ''vertex'',
                properties =
                  [\<lparr> pname = ''state'', ptype = T_uchar, storage = Some [Num 0] \<rparr>,
                   \<lparr> pname = ''x'', ptype = T_float, storage = Some [Num 1] \<rparr>,
                   \<lparr> pname = ''foo'', ptype = T_float, storage = Some [Num 2] \<rparr>] \<rparr>] \<rparr>,
       centers = (\<lambda>k. 0) \<rparr>"

definition commonB :: Splat where
  "commonB =
     \<lparr> splatData =
         \<lparr> numSplats = 1,
           elements =
             [\<lparr> ename = ''vertex'',
                properties =
                  [\<lparr> pname = ''state'', ptype = T_uchar, storage = Some [Num 0] \<rparr>,
                   \<lparr> pname = ''x'', ptype = T_float, storage = Some [Num 3] \<rparr>] \<rparr>] \<rparr>,
       centers = (\<lambda>k. 0) \<rparr>"

text \<open>A collection of 615 splats with a \<open>uchar\<close> and a \<open>short\<close> property.\<close>

definition narrowExample :: Splat where
  "narrowExample =
     \<lparr> splatData =
         \<lparr> numSplats = 615,
           elements =
             [\<lparr> ename = ''vertex'',
                properties =
                  [\<lparr> pname = ''state'', ptype = T_uchar, storage = Some (replicate 615 (Num 0)) \<rparr>,
                   \<lparr> pname = ''a'', ptype = T_uchar, storage = Some (replicate 615 (Num 0)) \<rparr>,
                   \<lparr> pname = ''b'', ptype = T_short, storage = Some (replicate 615 (Num 0)) \<rparr>] \<rparr>] \<rparr>,
       centers = (\<lambda>k. 0) \<rparr>"

text \<open>Three splats, none deleted, the last two selected, with the sort centers
  \<open>(10, 1, 1)\<close>, \<open>(0, 0, 0)\<close> and \<open>(5, 0, 0)\<close>.\<close>

definition mortonExample :: Splat where
  "mortonExample =
     \<lparr> splatData =
         \<lparr> numSplats = 3,
           elements =
             [\<lparr> ename = ''vertex'',
                properties =
                  [\<lparr> pname = ''state'', ptype = T_uchar,
                     storage = Some [Num 0, Num 1, Num 1] \<rparr>] \<rparr>] \<rparr>,
       centers = (\<lambda>k. if k = 0 then 10 else if k = 1 then 1 else if k = 2 then 1
                      else if k = 6 then 5 else 0) \<rparr>"

section \<open>Facts about rounding to a double\<close>

text \<open>A number \<open>m * 2^k\<close> with \<open>|m| < 2^53\<close> and \<open>k \<ge> -1074\<close> is a double: rounding
  leaves it alone.\<close>

lemma round_half_even_int: "round_half_even (of_int n) = n"
  by (simp add: round_half_even_def)

lemma expo_eq:
  assumes "2 powr of_int k \<le> \<bar>x\<bar>" "\<bar>x\<bar> < 2 powr of_int (k + 1)" "- 1022 \<le> k"
  shows "expo x = k"
proof -
  have "0 < (2 :: real) powr of_int k" by simp
  then have "0 < \<bar>x\<bar>" using assms(1) by linarith
  then have "\<lfloor>log 2 \<bar>x\<bar>\<rfloor> = k"
    using assms(1,2) by (subst floor_log_eq_powr_iff) simp_all
  then show ?thesis using assms(3) by (simp add: expo_def)
qed

lemma expo_upper:
  assumes "x \<noteq> 0" "\<bar>x\<bar> < 2 powr of_int j" "- 1021 \<le> j"
  shows "expo x < j"
proof -
  define L where "L = \<lfloor>log 2 \<bar>x\<bar>\<rfloor>"
  have "0 < \<bar>x\<bar>" using assms(1) by simp
  then have "2 powr of_int L \<le> \<bar>x\<bar>"
    using floor_log_eq_powr_iff[of "\<bar>x\<bar>" 2 L] by (simp add: L_def)
  then have "2 powr of_int L < (2 :: real) powr of_int j" using assms(2) by linarith
  then have "L < j" by simp
  then show ?thesis using assms(3) by (simp add: expo_def L_def[symmetric])
qed

lemma fl64_exact:
  assumes x: "x = of_int m * 2 powr of_int k" and m: "\<bar>m\<bar> < 2 ^ 53" and k: "- 1074 \<le> k"
  shows "fl64 x = x"
proof (cases "x = 0")
  case True
  then show ?thesis by (simp add: fl64_def)
next
  case False
  have "\<bar>x\<bar> = of_int \<bar>m\<bar> * 2 powr of_int k" by (simp add: x abs_mult)
  also have "\<dots> < 2 ^ 53 * 2 powr of_int k"
  proof (rule mult_strict_right_mono)
    have "real_of_int \<bar>m\<bar> < real_of_int (2 ^ 53)" using m by (simp only: of_int_less_iff)
    then show "real_of_int \<bar>m\<bar> < 2 ^ 53" by simp
    show "0 < (2 :: real) powr of_int k" by simp
  qed
  also have "\<dots> = 2 powr of_int (k + 53)"
    by (simp add: powr_add powr_numeral)
  finally have "\<bar>x\<bar> < 2 powr of_int (k + 53)" .
  then have "expo x < k + 53" using False k by (intro expo_upper) simp_all
  define d where "d = nat (k - (expo x - 52))"
  have d: "k = expo x - 52 + int d" using \<open>expo x < k + 53\<close> by (simp add: d_def)
  define U where "U = ulp x"
  have U0: "0 < U" by (simp add: U_def ulp_def)
  have u: "2 powr of_int k = 2 ^ d * U"
    by (simp add: U_def ulp_def d powr_add powr_realpow)
  have xU: "x = of_int (m * 2 ^ d) * U" by (simp add: x u)
  then have "x / U = of_int (m * 2 ^ d)" using U0 by simp
  then have "round_half_even (x / U) = m * 2 ^ d"
    by (simp only: round_half_even_int)
  then have "of_int (round_half_even (x / U)) * U = x" using xU by simp
  then show ?thesis using False by (simp add: fl64_def U_def)
qed

lemma fl64_dyadic:
  assumes "\<bar>m\<bar> < 2 ^ 53" "j \<le> 1074"
  shows "fl64 (of_int m / 2 ^ j) = of_int m / 2 ^ j"
proof (rule fl64_exact[where m = m and k = "- int j"])
  show "real_of_int m / 2 ^ j = real_of_int m * 2 powr real_of_int (- int j)"
    by (simp add: powr_minus powr_realpow divide_inverse)
qed (use assms in simp_all)

lemma fl64_simps:
  "fl64 1 = 1" "fl64 2 = 2" "fl64 (1 / 2) = 1 / 2" "fl64 128 = 128"
  using fl64_dyadic[of 1 0] fl64_dyadic[of 2 0] fl64_dyadic[of 1 1] fl64_dyadic[of 128 0]
  by simp_all

lemma round64_in_range: "\<bar>fl64 x\<bar> \<le> dbl_max \<Longrightarrow> round64 x = Num (fl64 x)"
  unfolding round64_def Let_def by (auto simp: abs_le_iff)

lemma round64_dyadic:
  assumes "\<bar>m\<bar> < 2 ^ 53" "j \<le> 1074"
  shows "round64 (of_int m / 2 ^ j) = Num (of_int m / 2 ^ j)"
proof -
  have "\<bar>real_of_int m\<bar> < 2 ^ 53"
    using assms(1) by (metis of_int_abs of_int_less_iff of_int_numeral of_int_power)
  moreover have "\<bar>real_of_int m / 2 ^ j\<bar> \<le> \<bar>real_of_int m\<bar>"
  proof -
    have "(1 :: real) \<le> 2 ^ j" by simp
    then have "\<bar>real_of_int m\<bar> * 1 \<le> \<bar>real_of_int m\<bar> * 2 ^ j"
      by (intro mult_left_mono) simp_all
    then show ?thesis by (simp add: abs_divide divide_le_eq)
  qed
  ultimately have "\<bar>real_of_int m / 2 ^ j\<bar> < 2 ^ 53" by linarith
  moreover have "(2 :: real) ^ 53 \<le> dbl_max" by (simp add: dbl_max_def)
  ultimately have "\<bar>real_of_int m / 2 ^ j\<bar> \<le> dbl_max" by linarith
  then have "\<bar>fl64 (real_of_int m / 2 ^ j)\<bar> \<le> dbl_max"
    by (simp only: fl64_dyadic[OF assms])
  then show ?thesis
    by (simp only: round64_in_range fl64_dyadic[OF assms])
qed


lemma powr_2_int:
  "2 powr of_int (int n) = (2 :: real) ^ n" "2 powr of_int (- int n) = 1 / (2 :: real) ^ n"
  by (simp_all add: powr_realpow powr_minus inverse_eq_divide)

lemma fl64_binade_neg:
  assumes "1 / 2 ^ j \<le> \<bar>x\<bar>" "\<bar>x\<bar> < 2 / 2 ^ j" "j \<le> 1022"
  shows "fl64 x = of_int (round_half_even (x * 2 ^ (j + 52))) / 2 ^ (j + 52)"
proof -
  have a: "2 powr of_int (- int j) \<le> \<bar>x\<bar>" using assms(1) by (simp only: powr_2_int)
  have "(2 :: real) powr (of_int (- int j) + 1) = 2 powr of_int (- int j) * 2 powr 1"
    by (rule powr_add)
  then have "(2 :: real) powr of_int (- int j + 1) = 2 powr of_int (- int j) * 2"
    by simp
  then have b: "\<bar>x\<bar> < 2 powr of_int (- int j + 1)" using assms(2) by (simp only: powr_2_int)
  have "0 < (2 :: real) powr of_int (- int j)" by simp
  then have nz: "x \<noteq> 0" using a by auto
  have e: "expo x = - int j" using a b assms(3) by (intro expo_eq) simp_all
  have "- int j - 52 = - int (j + 52)" by simp
  then have u: "ulp x = 1 / 2 ^ (j + 52)"
    unfolding ulp_def e by (simp only: powr_2_int)
  show ?thesis using nz by (simp add: fl64_def u)
qed

lemma round_half_even_near:
  assumes "\<bar>q - of_int n\<bar> < 1 / 2"
  shows "round_half_even q = n"
proof (cases "of_int n \<le> q")
  case True
  then have "\<lfloor>q\<rfloor> = n" using assms by (intro floor_unique) linarith+
  then show ?thesis using assms True by (simp add: round_half_even_def)
next
  case False
  have e: "real_of_int (n - 1) = of_int n - 1" by simp
  have "of_int (n - 1) \<le> q" "q < of_int (n - 1) + 1"
    unfolding e using assms False by linarith+
  then have f: "\<lfloor>q\<rfloor> = n - 1" by (rule floor_unique)
  have "1 / 2 < q - of_int (n - 1)" unfolding e using assms False by linarith
  then show ?thesis by (simp add: round_half_even_def f)
qed

lemma fl64_below_half: "fl64 (1 / 2 - 1 / 2 ^ 73) = 1 / 2"
proof -
  let ?x = "1 / 2 - 1 / 2 ^ 73 :: real"
  have b: "1 / 2 ^ 2 \<le> \<bar>?x\<bar>" "\<bar>?x\<bar> < 2 / 2 ^ 2" by simp_all
  have "\<bar>?x * 2 ^ (2 + 52) - of_int (2 ^ 53)\<bar> < 1 / 2" by simp
  then have "round_half_even (?x * 2 ^ (2 + 52)) = 2 ^ 53"
    by (rule round_half_even_near)
  moreover have "fl64 ?x = of_int (round_half_even (?x * 2 ^ (2 + 52))) / 2 ^ (2 + 52)"
    by (rule fl64_binade_neg[OF b]) simp
  ultimately show ?thesis by simp
qed





section \<open>Properties of the quantizer's helpers\<close>




lemma shl1_8: "shl1 8 = 256" and shl1_10: "shl1 10 = 1024" and shl1_11: "shl1 11 = 2048"
  by (simp_all add: shl1_def)










lemma calcMinMax_replicate: "calcMinMax (replicate (Suc n) v) = \<lparr> mmin = v, mmax = v \<rparr>"
proof -
  have "foldl (\<lambda>m x. \<lparr> mmin = min (mmin m) x, mmax = max (mmax m) x \<rparr>)
          \<lparr> mmin = v, mmax = v \<rparr> (replicate n v) = \<lparr> mmin = v, mmax = v \<rparr>"
    by (induction n) simp_all
  then show ?thesis by (simp add: calcMinMax_def)
qed


section \<open>Stores into a buffer\<close>

lemma write_at_mid:
  "length a = off \<Longrightarrow> length old = length bs \<Longrightarrow> write_at off bs (a @ old @ c) = Inr (a @ bs @ c)"
  by (simp add: write_at_def)

lemma do_stores_append:
  "do_stores buf (xs @ ys) = (case do_stores buf xs of Inl e \<Rightarrow> Inl e | Inr b \<Rightarrow> do_stores b ys)"
  by (induction xs arbitrary: buf) (auto split: sum.splits)

lemma do_stores_bytes:
  "off + n \<le> length buf \<Longrightarrow>
   do_stores buf (map (\<lambda>k. StUint8 (off + k) (g k)) [0 ..< n])
     = Inr (take off buf @ map (\<lambda>k. U8 (ToUint8 (g k))) [0 ..< n] @ drop (off + n) buf)"
proof (induction n)
  case 0
  then show ?case by simp
next
  case (Suc n)
  let ?M = "map (\<lambda>k. U8 (ToUint8 (g k))) [0 ..< n]"
  have split: "drop (off + n) buf = [buf ! (off + n)] @ drop (off + Suc n) buf"
    using Suc.prems by (simp add: Cons_nth_drop_Suc)
  have "write_at (off + n) [U8 (ToUint8 (g n))] ((take off buf @ ?M) @ [buf ! (off + n)] @ drop (off + Suc n) buf)
        = Inr ((take off buf @ ?M) @ [U8 (ToUint8 (g n))] @ drop (off + Suc n) buf)"
    using Suc.prems by (intro write_at_mid) simp_all
  then show ?case
    using Suc by (simp add: do_stores_append setUint8_def split)
qed

section \<open>The spherical-harmonic bytes of the compressed encoder\<close>

lemma clamp_trunc: "max 0 (min 255 (trunc y)) = max 0 (min 255 \<lfloor>y\<rfloor>)"
  unfolding trunc_def by (auto simp: max_def min_def) linarith+

lemma ToUint8_quantizeSH:
  "ToUint8 (quantizeSH v)
   = word_of_int (max 0 (min 255 \<lfloor>fl64 (fl64 (fl64 (v / 8) + 1 / 2) * 256)\<rfloor>))"
proof -
  let ?y = "fl64 (fl64 (fl64 (v / 8) + 1 / 2) * 256)"
  have "quantizeSH v = real_of_int (max 0 (min 255 (trunc ?y)))"
    by (simp add: quantizeSH_def Let_def max_def min_def)
  moreover have "trunc (real_of_int k) = k" for k by (simp add: trunc_def)
  ultimately show ?thesis by (simp add: ToUint8_def clamp_trunc)
qed

lemma sh_stores_result:
  assumes "off + n \<le> length buf"
  shows "do_stores buf (sh_stores off n d)
         = Inr (take off buf @ map (\<lambda>k. U8 (ToUint8 (quantizeSH (d (shNames ! k))))) [0 ..< n]
                @ drop (off + n) buf)"
  unfolding sh_stores_def using assms by (rule do_stores_bytes)

text \<open>The coefficient \<open>1/64\<close>: every operation is exact, the scaled value is \<open>128.5\<close>.\<close>

lemma fl64_sh_example:
  "fl64 (1 / 512) = 1 / 512" "fl64 (257 / 512) = 257 / 512" "fl64 (257 / 2) = 257 / 2"
  "fl64 129 = 129"
  using fl64_dyadic[of 1 9] fl64_dyadic[of 257 9] fl64_dyadic[of 257 1] fl64_dyadic[of 129 0]
  by simp_all

text \<open>The coefficient \<open>-2^-70\<close>: the sum \<open>v/8 + 0.5\<close> is rounded to \<open>0.5\<close> and the byte is
  128, where the same formula over the reals gives 127.\<close>

lemma quantizeSH_rounds_sum:
  "ToUint8 (quantizeSH (- (1 / 2 ^ 70))) = 128"
  "max 0 (min 255 \<lfloor>((- (1 / 2 ^ 70) :: real) / 8 + 1 / 2) * 256\<rfloor>) = 127"
proof -
  have a: "fl64 (- (1 / 2 ^ 70) / 8) = - (1 / 2 ^ 73)"
    using fl64_dyadic[of "- 1" 73] by simp
  have b: "fl64 (- (1 / 2 ^ 73) + 1 / 2) = 1 / 2"
    using fl64_below_half by simp
  have c: "fl64 (1 / 2 * 256) = 128"
    using fl64_dyadic[of 128 0] by simp
  have "ToUint8 (quantizeSH (- (1 / 2 ^ 70)))
        = word_of_int (max 0 (min 255 \<lfloor>fl64 (fl64 (fl64 (- (1 / 2 ^ 70) / 8) + 1 / 2) * 256)\<rfloor>))"
    by (rule ToUint8_quantizeSH)
  also have "\<dots> = word_of_int (max 0 (min 255 \<lfloor>128 :: real\<rfloor>))"
    by (simp only: a b c)
  finally show "ToUint8 (quantizeSH (- (1 / 2 ^ 70))) = 128" by simp
  have "\<lfloor>((- (1 / 2 ^ 70) :: real) / 8 + 1 / 2) * 256\<rfloor> = 127"
    by (rule floor_unique) simp_all
  then show "max 0 (min 255 \<lfloor>((- (1 / 2 ^ 70) :: real) / 8 + 1 / 2) * 256\<rfloor>) = 127"
    by simp
qed

text \<open>
  C2, as the code has it. The \<open>k\<close>-th coefficient \<open>v\<close> of a splat is stored at the
  \<open>k\<close>-th byte of the splat's slot of the SH section as
  \<open>clamp(trunc((v/8 + 0.5) * 256), 0, 255)\<close>, each of the three operations rounded to a
  double: the scaled value is truncated, which after the clamp is its floor, and not rounded
  to the nearest integer.
\<close>

theorem sh_byte_truncated:
  assumes "k < n" and "off + n \<le> length buf"
  shows "\<exists>buf'. do_stores buf (sh_stores off n d) = Inr buf'
           \<and> length buf' = length buf
           \<and> buf' ! (off + k)
               = U8 (word_of_int (max 0 (min 255
                   \<lfloor>fl64 (fl64 (fl64 (d (shNames ! k) / 8) + 1 / 2) * 256)\<rfloor>)))"
proof -
  let ?M = "map (\<lambda>k. U8 (ToUint8 (quantizeSH (d (shNames ! k))))) [0 ..< n]"
  let ?buf' = "take off buf @ ?M @ drop (off + n) buf"
  have "do_stores buf (sh_stores off n d) = Inr ?buf'"
    using assms(2) by (rule sh_stores_result)
  moreover have "length ?buf' = length buf" using assms(2) by simp
  moreover have "?buf' ! (off + k) = ?M ! k"
    using assms by (simp add: nth_append)
  moreover have "?M ! k = U8 (ToUint8 (quantizeSH (d (shNames ! k))))"
    using assms(1) by simp
  ultimately show ?thesis by (simp add: ToUint8_quantizeSH)
qed

theorem sh_byte_truncated_witness:
  "\<exists>buf'. do_stores [U8 0] (sh_stores 0 1 (\<lambda>m. 1 / 64)) = Inr buf'
           \<and> length buf' = 1 \<and> buf' ! 0 = U8 128"
  using sh_byte_truncated[of 0 1 0 "[U8 0]" "\<lambda>m. 1 / 64"] by (simp add: fl64_sh_example)

text \<open>C2 as stated fails: for the coefficient \<open>1/64\<close> the scaled value is \<open>128.5\<close>, with no
  rounding error in any operation; rounding half up gives 129, the code stores 128.\<close>

theorem sh_round_counterexample:
  "ToUint8 (quantizeSH (1 / 64)) = 128
   \<and> max 0 (min 255 \<lfloor>fl64 (fl64 (fl64 (fl64 ((1 / 64) / 8) + 1 / 2) * 256) + 1 / 2)\<rfloor>) = 129
   \<and> max 0 (min 255 \<lfloor>((1 / 64 :: real) / 8 + 1 / 2) * 256 + 1 / 2\<rfloor>) = 129"
  by (simp add: ToUint8_quantizeSH fl64_sh_example)

section \<open>Chunk ranges and padding\<close>

lemma calcMinMax_foldl:
  "foldl (\<lambda>m v. \<lparr> mmin = min (mmin m) v, mmax = max (mmax m) v \<rparr>) \<lparr> mmin = a, mmax = b \<rparr> vs
   = \<lparr> mmin = Min (insert a (set vs)), mmax = Max (insert b (set vs)) \<rparr>"
proof (induction vs arbitrary: a b)
  case Nil
  then show ?case by simp
next
  case (Cons v vs)
  have "Min (insert (min a v) (set vs)) = Min (insert a (insert v (set vs)))"
    by (cases "set vs = {}") (simp_all add: min.assoc min.commute min.left_commute)
  moreover have "Max (insert (max b v) (set vs)) = Max (insert b (insert v (set vs)))"
    by (cases "set vs = {}") (simp_all add: max.assoc max.commute max.left_commute)
  ultimately show ?case using Cons.IH[of "min a v" "max b v"] by simp
qed

lemma calcMinMax_Min_Max:
  assumes "d \<noteq> []"
  shows "calcMinMax d = \<lparr> mmin = Min (set d), mmax = Max (set d) \<rparr>"
proof -
  obtain v vs where d: "d = v # vs" using assms by (cases d) auto
  show ?thesis unfolding calcMinMax_def d by (simp add: calcMinMax_foldl)
qed

lemma calcMinMax_padded:
  assumes "xs \<noteq> []"
  shows "calcMinMax (xs @ replicate k (last xs)) = calcMinMax xs"
proof -
  have "set (xs @ replicate k (last xs)) = set xs"
    using assms by (cases "k = 0") auto
  then show ?thesis using assms by (simp add: calcMinMax_Min_Max)
qed

lemma toColor_padded:
  assumes "xs \<noteq> []"
  shows "toColor (xs @ replicate k (last xs)) = toColor xs @ replicate k (last (toColor xs))"
  using assms by (simp add: toColor_def last_map)

lemma toColor_Nil_iff: "toColor xs = [] \<longleftrightarrow> xs = []"
  by (simp add: toColor_def)

lemma packBounds_padded:
  assumes "\<forall>m \<in> set Chunk_members. p m = r m @ replicate k (last (r m)) \<and> r m \<noteq> []"
  shows "packBounds p = packBounds r"
proof -
  have m: "p m = r m @ replicate k (last (r m))" "r m \<noteq> []" if "m \<in> set Chunk_members" for m
    using assms that by auto
  have mem: "''x'' \<in> set Chunk_members" "''y'' \<in> set Chunk_members" "''z'' \<in> set Chunk_members"
    "''scale_0'' \<in> set Chunk_members" "''scale_1'' \<in> set Chunk_members"
    "''scale_2'' \<in> set Chunk_members" "''f_dc_0'' \<in> set Chunk_members"
    "''f_dc_1'' \<in> set Chunk_members" "''f_dc_2'' \<in> set Chunk_members"
    by (simp_all add: Chunk_members_def)
  show ?thesis
    unfolding packBounds_def
    by (simp add: m[OF mem(1)] m[OF mem(2)] m[OF mem(3)] m[OF mem(4)] m[OF mem(5)] m[OF mem(6)]
        m[OF mem(7)] m[OF mem(8)] m[OF mem(9)] calcMinMax_padded toColor_padded toColor_Nil_iff)
qed

lemma snd_pack: "snd (pack c) = packBounds (c_data c)"
  by (simp add: pack_def Let_def)

lemma c_data_Chunk_set:
  "c_data (Chunk_set c j d) m = (if m \<in> set Chunk_members then (c_data c m)[j := d m] else c_data c m)"
  by (simp add: Chunk_set_def)


lemma c_data_pad_fold:
  assumes "m \<in> set Chunk_members" and "length (c_data c m) = n" and "a \<le> n"
  shows "c_data (foldl (\<lambda>c j. Chunk_set c j d) c [a ..< n]) m
         = take a (c_data c m) @ replicate (n - a) (d m)"
  using assms(3,2)
proof (induction "n - a" arbitrary: a c)
  case 0
  then show ?case by simp
next
  case (Suc k)
  then have lt: "a < n" by simp
  let ?c' = "Chunk_set c a d"
  have len: "length (c_data ?c' m) = n"
    using Suc.prems assms(1) by (simp add: c_data_Chunk_set)
  have "c_data (foldl (\<lambda>c j. Chunk_set c j d) ?c' [Suc a ..< n]) m
        = take (Suc a) (c_data ?c' m) @ replicate (n - Suc a) (d m)"
    using Suc.hyps(2) lt len by (intro Suc.hyps(1)) simp_all
  moreover have "take (Suc a) (c_data ?c' m) = take a (c_data c m) @ [d m]"
    using lt Suc.prems assms(1) by (simp add: c_data_Chunk_set take_Suc_conv_app_nth)
  moreover have "replicate (n - a) (d m) = d m # replicate (n - Suc a) (d m)"
  proof -
    have "n - a = Suc (n - Suc a)" using lt by simp
    then show ?thesis by (simp only: replicate_Suc)
  qed
  ultimately show ?case using lt by (simp add: upt_conv_Cons)
qed

lemma c_data_pad_chunk:
  assumes "m \<in> set Chunk_members" and "length (c_data c m) = 256" and "num < 256"
  shows "c_data (pad_chunk c num d) m = take num (c_data c m) @ replicate (256 - num) (d m)"
  unfolding pad_chunk_def using assms by (simp add: c_data_pad_fold)

lemma chunk_rows_append:
  "chunk_rows rd splats indices shO shC i (js @ ks) st
   = (case chunk_rows rd splats indices shO shC i js st of
        Inl e \<Rightarrow> Inl e
      | Inr st' \<Rightarrow> chunk_rows rd splats indices shO shC i ks st')"
proof (induction js arbitrary: st)
  case Nil
  then show ?case by simp
next
  case (Cons j js)
  obtain buf chunk d where st: "st = (buf, chunk, d)" by (cases st) auto
  show ?case unfolding st
    by (simp add: Cons.IH Let_def split: option.splits sum.splits)
qed

lemma chunk_rows_lengths:
  assumes "chunk_rows rd splats indices shO shC i js (buf, chunk, d0) = Inr (buf1, chunk1, d1)"
  shows "length (c_data chunk1 m) = length (c_data chunk m)"
  using assms
proof (induction js arbitrary: buf chunk d0)
  case Nil
  then show ?case by simp
next
  case (Cons j js)
  from Cons.prems show ?case
    by (auto simp: Let_def c_data_Chunk_set split: option.splits sum.splits dest!: Cons.IH)
qed

lemma chunk_rows_last:
  assumes "chunk_rows rd splats indices shO shC i (js @ [j]) (buf, chunk, d0) = Inr (buf1, chunk1, d1)"
    and "m \<in> set Chunk_members" and "j < length (c_data chunk m)"
  shows "c_data chunk1 m ! j = d1 m"
proof -
  from assms(1) obtain buf0 chunk0 d0' where
    pre: "chunk_rows rd splats indices shO shC i js (buf, chunk, d0) = Inr (buf0, chunk0, d0')"
    and last: "chunk_rows rd splats indices shO shC i [j] (buf0, chunk0, d0') = Inr (buf1, chunk1, d1)"
    by (auto simp: chunk_rows_append split: sum.splits)
  from last have "chunk1 = Chunk_set chunk0 j d1"
    by (auto simp: Let_def split: option.splits sum.splits)
  moreover have "length (c_data chunk0 m) = length (c_data chunk m)"
    using pre by (rule chunk_rows_lengths)
  ultimately show ?thesis using assms(2,3) by (simp add: c_data_Chunk_set)
qed

text \<open>
  C6, as the code has it. In the final chunk, \<open>num < 256\<close> splats are read into the slots \<open>0 .. num - 1\<close> and
  the remaining slots are filled with the data the reader left last. The ranges \<open>pack\<close>
  returns for the padded chunk are the ranges of the first \<open>num\<close> slots alone: the minimum
  and maximum of the real members for position, those clamped to \<open>[-20, 20]\<close> for the
  log-scale, and those of the converted colours.
\<close>

theorem padding_keeps_bounds:
  assumes rows: "chunk_rows rd splats indices shOffset shCoeffs i [0 ..< num] (buf, chunk, d0)
                 = Inr (buf1, chunk1, d1)"
    and num: "0 < num" "num < 256"
    and len: "\<forall>m \<in> set Chunk_members. length (c_data chunk m) = 256"
  shows "snd (pack (pad_chunk chunk1 num d1)) = packBounds (\<lambda>m. take num (c_data chunk1 m))
    \<and> packBounds (\<lambda>m. take num (c_data chunk1 m))
      = \<lparr> px = \<lparr> mmin = Min (set (take num (c_data chunk1 ''x''))),
                  mmax = Max (set (take num (c_data chunk1 ''x''))) \<rparr>,
          py = \<lparr> mmin = Min (set (take num (c_data chunk1 ''y''))),
                  mmax = Max (set (take num (c_data chunk1 ''y''))) \<rparr>,
          pz = \<lparr> mmin = Min (set (take num (c_data chunk1 ''z''))),
                  mmax = Max (set (take num (c_data chunk1 ''z''))) \<rparr>,
          sx = clampScale \<lparr> mmin = Min (set (take num (c_data chunk1 ''scale_0''))),
                             mmax = Max (set (take num (c_data chunk1 ''scale_0''))) \<rparr>,
          sy = clampScale \<lparr> mmin = Min (set (take num (c_data chunk1 ''scale_1''))),
                             mmax = Max (set (take num (c_data chunk1 ''scale_1''))) \<rparr>,
          sz = clampScale \<lparr> mmin = Min (set (take num (c_data chunk1 ''scale_2''))),
                             mmax = Max (set (take num (c_data chunk1 ''scale_2''))) \<rparr>,
          cr = \<lparr> mmin = Min (set (toColor (take num (c_data chunk1 ''f_dc_0'')))),
                  mmax = Max (set (toColor (take num (c_data chunk1 ''f_dc_0'')))) \<rparr>,
          cg = \<lparr> mmin = Min (set (toColor (take num (c_data chunk1 ''f_dc_1'')))),
                  mmax = Max (set (toColor (take num (c_data chunk1 ''f_dc_1'')))) \<rparr>,
          cb = \<lparr> mmin = Min (set (toColor (take num (c_data chunk1 ''f_dc_2'')))),
                  mmax = Max (set (toColor (take num (c_data chunk1 ''f_dc_2'')))) \<rparr> \<rparr>"
proof -
  have len1: "length (c_data chunk1 m) = 256" if "m \<in> set Chunk_members" for m
    using chunk_rows_lengths[OF rows, of m] len that by simp
  have upt: "[0 ..< num] = [0 ..< num - 1] @ [num - 1]"
    using num(1) by (cases num) simp_all
  have last_slot: "c_data chunk1 m ! (num - 1) = d1 m" if "m \<in> set Chunk_members" for m
    using rows that len num unfolding upt by (intro chunk_rows_last) auto
  have nonempty: "take num (c_data chunk1 m) \<noteq> []" if "m \<in> set Chunk_members" for m
    using len1[OF that] num by auto
  have last_real: "last (take num (c_data chunk1 m)) = d1 m" if "m \<in> set Chunk_members" for m
    using len1[OF that] last_slot[OF that] num nonempty[OF that]
    by (simp add: last_conv_nth)
  have ne1: "c_data chunk1 m \<noteq> []" if "m \<in> set Chunk_members" for m
    using len1[OF that] by auto
  have "packBounds (c_data (pad_chunk chunk1 num d1)) = packBounds (\<lambda>m. take num (c_data chunk1 m))"
    by (rule packBounds_padded[where k = "256 - num"])
       (simp add: c_data_pad_chunk len1 num last_real nonempty ne1)
  moreover have mm: "calcMinMax (take num (c_data chunk1 m))
        = \<lparr> mmin = Min (set (take num (c_data chunk1 m))),
            mmax = Max (set (take num (c_data chunk1 m))) \<rparr>" if "m \<in> set Chunk_members" for m
    using nonempty[OF that] by (rule calcMinMax_Min_Max)
  moreover have mc: "calcMinMax (toColor (take num (c_data chunk1 m)))
        = \<lparr> mmin = Min (set (toColor (take num (c_data chunk1 m)))),
            mmax = Max (set (toColor (take num (c_data chunk1 m)))) \<rparr>" if "m \<in> set Chunk_members" for m
    using nonempty[OF that] by (intro calcMinMax_Min_Max) (simp add: toColor_Nil_iff)
  moreover have "''x'' \<in> set Chunk_members" "''y'' \<in> set Chunk_members" "''z'' \<in> set Chunk_members"
    "''scale_0'' \<in> set Chunk_members" "''scale_1'' \<in> set Chunk_members"
    "''scale_2'' \<in> set Chunk_members" "''f_dc_0'' \<in> set Chunk_members"
    "''f_dc_1'' \<in> set Chunk_members" "''f_dc_2'' \<in> set Chunk_members"
    by (simp_all add: Chunk_members_def)
  ultimately show ?thesis
    by (simp add: snd_pack packBounds_def)
qed

theorem padding_keeps_bounds_witness:
  "chunk_rows (\<lambda>s i m. 1)
     [\<lparr> splatData = \<lparr> numSplats = 1, elements = [] \<rparr>, centers = (\<lambda>k. 0) \<rparr>]
     [\<lparr> splatIndex = 0, ci_i = 0, globalIndex = 0 \<rparr>] 0 0 0 [0 ..< 1]
     ([], Chunk_new 256, (\<lambda>m. 0))
   = Inr ([], Chunk_set (Chunk_new 256) 0 (\<lambda>m. 1), (\<lambda>m. 1))
   \<and> snd (pack (pad_chunk (Chunk_set (Chunk_new 256) 0 (\<lambda>m. 1)) 1 (\<lambda>m. 1)))
     = packBounds (\<lambda>m. take 1 (c_data (Chunk_set (Chunk_new 256) 0 (\<lambda>m. 1)) m))"
proof -
  have rows: "chunk_rows (\<lambda>s i m. 1)
     [\<lparr> splatData = \<lparr> numSplats = 1, elements = [] \<rparr>, centers = (\<lambda>k. 0) \<rparr>]
     [\<lparr> splatIndex = 0, ci_i = 0, globalIndex = 0 \<rparr>] 0 0 0 [0 ..< 1]
     ([], Chunk_new 256, (\<lambda>m. 0 :: real))
   = Inr ([], Chunk_set (Chunk_new 256) 0 (\<lambda>m. 1), (\<lambda>m. 1))"
    by (simp add: arr_get_def sh_stores_def Let_def)
  have len: "\<forall>m \<in> set Chunk_members. length (c_data (Chunk_new 256) m) = 256"
    by (simp add: Chunk_new_def)
  show ?thesis
    using padding_keeps_bounds[OF rows _ _ len] rows by simp
qed

text \<open>C6 as stated fails for the log-scale: the ranges \<open>pack\<close> returns for it are clamped
  to \<open>[-20, 20]\<close>. A final chunk whose only real member has the log-scale 30 gets the range
  \<open>[20, 20]\<close>, not the minimum and maximum \<open>30\<close> of its real members.\<close>

theorem padding_bounds_counterexample:
  "chunk_rows (\<lambda>s i m. 30)
     [\<lparr> splatData = \<lparr> numSplats = 1, elements = [] \<rparr>, centers = (\<lambda>k. 0) \<rparr>]
     [\<lparr> splatIndex = 0, ci_i = 0, globalIndex = 0 \<rparr>] 0 0 0 [0 ..< 1]
     ([], Chunk_new 256, (\<lambda>m. 0))
   = Inr ([], Chunk_set (Chunk_new 256) 0 (\<lambda>m. 30), (\<lambda>m. 30))
   \<and> take 1 (c_data (Chunk_set (Chunk_new 256) 0 (\<lambda>m. 30)) ''scale_0'') = [30]
   \<and> sx (snd (pack (pad_chunk (Chunk_set (Chunk_new 256) 0 (\<lambda>m. 30)) 1 (\<lambda>m. 30))))
     = \<lparr> mmin = 20, mmax = 20 \<rparr>"
proof -
  define c where "c = Chunk_set (Chunk_new 256) 0 (\<lambda>m. 30 :: real)"
  have rows: "chunk_rows (\<lambda>s i m. 30)
     [\<lparr> splatData = \<lparr> numSplats = 1, elements = [] \<rparr>, centers = (\<lambda>k. 0) \<rparr>]
     [\<lparr> splatIndex = 0, ci_i = 0, globalIndex = 0 \<rparr>] 0 0 0 [0 ..< 1]
     ([], Chunk_new 256, (\<lambda>m. 0 :: real))
   = Inr ([], c, (\<lambda>m. 30))"
    by (simp add: arr_get_def sh_stores_def Let_def c_def)
  have mem: "''scale_0'' \<in> set Chunk_members" by (simp add: Chunk_members_def)
  have "c_data c ''scale_0'' = (replicate 256 0)[0 := 30]"
    using mem by (simp add: c_def c_data_Chunk_set Chunk_new_def)
  then have len: "length (c_data c ''scale_0'') = 256"
    and members: "take 1 (c_data c ''scale_0'') = [30]"
    by (simp_all add: take_Suc_conv_app_nth)
  have "c_data (pad_chunk c 1 (\<lambda>m. 30)) ''scale_0''
        = take 1 (c_data c ''scale_0'') @ replicate (256 - 1) 30"
    by (rule c_data_pad_chunk[OF mem len]) simp
  then have "c_data (pad_chunk c 1 (\<lambda>m. 30)) ''scale_0'' = 30 # replicate 255 30"
    unfolding members by simp
  then have "c_data (pad_chunk c 1 (\<lambda>m. 30)) ''scale_0'' = replicate (Suc 255) 30"
    by (simp only: replicate.simps)
  then have "calcMinMax (c_data (pad_chunk c 1 (\<lambda>m. 30)) ''scale_0'') = \<lparr> mmin = 30, mmax = 30 \<rparr>"
    by (simp only: calcMinMax_replicate)
  then have "sx (snd (pack (pad_chunk c 1 (\<lambda>m. 30)))) = \<lparr> mmin = 20, mmax = 20 \<rparr>"
    by (simp add: snd_pack packBounds_def clampScale_def clamp_def)
  then show ?thesis using rows members by (simp add: c_def)
qed

section \<open>The filter\<close>


lemma filter_set_new:
  "f_state (filter_set (GaussianFilter_new settings) s) = getProp (splatData s) ''state''"
  "f_opacity (filter_set (GaussianFilter_new settings) s) = getProp (splatData s) ''opacity''"
  "f_splat (filter_set (GaussianFilter_new settings) s) = Some s"
  "f_onlySelected (filter_set (GaussianFilter_new settings) s) = orElse (selected settings) False"
  "f_minOpacity (filter_set (GaussianFilter_new settings) s) = orElse (minOpacity settings) 0"
  "f_removeInvalid (filter_set (GaussianFilter_new settings) s) = orElse (removeInvalid settings) False"
  by (simp_all add: filter_set_def GaussianFilter_new_def)

text \<open>The sigmoid in double arithmetic: exact at zero and at the infinities, and equal to 1
  as soon as the engine's exponential is at most \<open>2^-53\<close>, because \<open>1 + y\<close> is then rounded
  to 1 (for an opacity of 40 the exponential is about \<open>2^-57.7\<close>).\<close>

lemma round64_simps:
  "round64 1 = Num 1" "round64 2 = Num 2" "round64 (1 / 2) = Num (1 / 2)"
  using round64_dyadic[of 1 0] round64_dyadic[of 2 0] round64_dyadic[of 1 1] by simp_all

lemma sigmoid_simps:
  "sigmoid St (Some (Num 0)) = Num (1 / 2)"
  "sigmoid St (Some PosInf) = Num 1"
  "sigmoid St (Some NegInf) = Num 0"
  "sigmoid St (Some NaN) = NaN"
  "sigmoid St None = NaN"
  by (simp_all add: sigmoid_def ToNumber_def round64_simps)






lemma filterExample_props:
  "getProp (splatData filterExample) ''state'' = Some [Num 4, Num 0, Num 1, Num 1, Num 1]"
  "getProp (splatData filterExample) ''opacity'' = Some [Num 0, Num 0, Num 0, PosInf, Num 0]"
  by (simp_all add: filterExample_def getProp_def getElement_def)


lemma bareExample_props:
  "getProp (splatData bareExample) ''state'' = Some [Num 4, Num 0]"
  "getProp (splatData bareExample) ''opacity'' = None"
  by (simp_all add: bareExample_def getProp_def getElement_def)




section \<open>Counting and the empty export\<close>

lemma survivors_rows_count:
  "map_sum id length (survivors_rows St f si js indices) = count_loop St f js (length indices)"
  by (induction js arbitrary: indices) (auto split: sum.splits)

lemma survivors_splats_count:
  "map_sum id length (survivors_splats St f splats si indices)
   = count_reduce St f splats (length indices)"
proof (induction splats arbitrary: f si indices)
  case Nil
  then show ?case by simp
next
  case (Cons s splats)
  let ?rows = "survivors_rows St (filter_set f s) si [0 ..< numSplats (splatData s)] indices"
  have cnt: "count_loop St (filter_set f s) [0 ..< numSplats (splatData s)] (length indices)
             = map_sum id length ?rows"
    by (simp add: survivors_rows_count)
  show ?case
  proof (cases ?rows)
    case (Inl e)
    then show ?thesis by (simp add: cnt)
  next
    case (Inr indices')
    then show ?thesis
      using Cons.IH[of "filter_set f s" "si + 1" indices'] by (simp add: cnt)
  qed
qed

lemma survivors_countGaussians:
  "map_sum id length (survivors_splats St f splats 0 []) = countGaussians St splats f"
  using survivors_splats_count[of St f splats 0 "[]"] by (simp add: countGaussians_def)

text \<open>
  C8, as the code has it. When no splat passes the filter, each encoder returns without a call of the sink and
  without an exception. The compressed encoder sends the line \<open>nothing to export\<close> to
  \<open>console.error\<close> before it returns; the other two are silent.
\<close>

theorem empty_export_writes_nothing:
  assumes "countGaussians St splats (GaussianFilter_new settings) = Inr 0"
  shows "serializePly St rd splats settings = \<lparr> writes = [], console = [], raised = None \<rparr>
       \<and> serializeSplat St rd splats settings = \<lparr> writes = [], console = [], raised = None \<rparr>
       \<and> serializePlyCompressed St rd version splats settings
           = \<lparr> writes = [], console = [''nothing to export''], raised = None \<rparr>"
proof -
  have "map_sum id length (survivors_splats St (GaussianFilter_new settings) splats 0 []) = Inr 0"
    using assms by (simp add: survivors_countGaussians)
  then have "survivors_splats St (GaussianFilter_new settings) splats 0 [] = Inr []"
    by (cases "survivors_splats St (GaussianFilter_new settings) splats 0 []") auto
  then show ?thesis
    using assms by (simp add: serializePly_def serializeSplat_def serializePlyCompressed_def)
qed

theorem empty_export_writes_nothing_witness:
  "countGaussians exampleState [filterExample]
     (GaussianFilter_new (defaultSettings \<lparr> minOpacity := Some 2 \<rparr>)) = Inr 0
   \<and> serializePly exampleState (\<lambda>ms cfg s i m. 0) [filterExample] (defaultSettings \<lparr> minOpacity := Some 2 \<rparr>)
       = \<lparr> writes = [], console = [], raised = None \<rparr>
   \<and> serializeSplat exampleState (\<lambda>ms cfg s i m. 0) [filterExample] (defaultSettings \<lparr> minOpacity := Some 2 \<rparr>)
       = \<lparr> writes = [], console = [], raised = None \<rparr>
   \<and> serializePlyCompressed exampleState (\<lambda>ms cfg s i m. 0) ''1.0.0'' [filterExample]
         (defaultSettings \<lparr> minOpacity := Some 2 \<rparr>)
       = \<lparr> writes = [], console = [''nothing to export''], raised = None \<rparr>"
proof -
  have c: "countGaussians exampleState [filterExample]
     (GaussianFilter_new (defaultSettings \<lparr> minOpacity := Some 2 \<rparr>)) = Inr 0"
    by (simp add: countGaussians_def filterExample_props filter_set_new test_def test_opacity_def
        upt_rec defaultSettings_def exampleState_def orElse_def arr_get_def ToInt32_def
        trunc_def sigmoid_simps num_less_def)
       (simp add: filterExample_def)
  show ?thesis
    using empty_export_writes_nothing[OF c] c by simp
qed

text \<open>C8 as stated fails for the compressed encoder: when nothing survives it reports the
  line \<open>nothing to export\<close> through \<open>console.error\<close>. Here a deleted and an unselected
  splat are exported with \<open>selected\<close> set.\<close>

theorem empty_export_reports_counterexample:
  "countGaussians exampleState [bareExample]
     (GaussianFilter_new (defaultSettings \<lparr> selected := Some True \<rparr>)) = Inr 0
   \<and> serializePlyCompressed exampleState (\<lambda>ms cfg s i m. 0) ''1.0.0'' [bareExample]
         (defaultSettings \<lparr> selected := Some True \<rparr>)
       = \<lparr> writes = [], console = [''nothing to export''], raised = None \<rparr>"
proof -
  define f where "f = filter_set (GaussianFilter_new (defaultSettings \<lparr> selected := Some True \<rparr>))
                        bareExample"
  have t: "test exampleState f 0 = Inr False" "test exampleState f (Suc 0) = Inr False"
    by (simp_all add: f_def test_def filter_set_new bareExample_props defaultSettings_def
        exampleState_def orElse_def arr_get_def ToInt32_def trunc_def)
  have n: "[0 ..< numSplats (splatData bareExample)] = [0, 1]"
    by (simp add: bareExample_def upt_rec)
  have "countGaussians exampleState [bareExample]
          (GaussianFilter_new (defaultSettings \<lparr> selected := Some True \<rparr>)) = Inr 0"
    by (simp add: countGaussians_def n f_def[symmetric] t)
  moreover have "survivors_splats exampleState
          (GaussianFilter_new (defaultSettings \<lparr> selected := Some True \<rparr>)) [bareExample] 0 []
        = Inr []"
    by (simp add: n f_def[symmetric] t)
  ultimately show ?thesis by (simp add: serializePlyCompressed_def)
qed

section \<open>The exported property list\<close>

lemma common_example_props:
  "getCommonProps [commonA, commonB]
   = Inr [(''state'', T_uchar), (''x'', T_float), (''foo'', T_float)]"
  by (simp add: getCommonProps_def vertexStorageProps_def getElement_def commonA_def commonB_def
      add_properties_def set_add_def)

lemma common_example_names:
  "getCommonPropNames [commonA, commonB] = Inr [''state'', ''x'']"
  by (simp add: getCommonPropNames_def getVertexProperties_def vertexStorageProps_def
      getElement_def commonA_def commonB_def new_Set_def set_add_def)

lemma common_example_plyProps:
  "plyProps defaultSettings [(''state'', T_uchar), (''x'', T_float), (''foo'', T_float)]
   = [(''x'', T_float), (''foo'', T_float)]"
  by (simp add: plyProps_def defaultSettings_def orElse_def keepSHProp_def)

lemma common_example_count:
  "countGaussians exampleState [commonA, commonB] (GaussianFilter_new defaultSettings) = Inr 2"
  by (simp add: countGaussians_def filter_set_def GaussianFilter_new_def getProp_def getElement_def
      commonA_def commonB_def test_def test_opacity_def test_invalid_def
      defaultSettings_def exampleState_def orElse_def arr_get_def ToInt32_def trunc_def)

text \<open>
  C1 on two collections that share \<open>x\<close>, where only the first has \<open>foo\<close>:
  \<open>getCommonProps\<close> keeps \<open>foo\<close> (its set of types has one member), the uncompressed
  encoder declares it in the header and writes a value for it in both rows.
  \<open>getCommonPropNames\<close>, which no encoder calls, returns the intersection.
\<close>

theorem common_props_keeps_partial_property:
  "getCommonProps [commonA, commonB]
     = Inr [(''state'', T_uchar), (''x'', T_float), (''foo'', T_float)]
   \<and> getCommonPropNames [commonA, commonB] = Inr [''state'', ''x'']
   \<and> serializePly exampleState rd [commonA, commonB] defaultSettings
     = \<lparr> writes =
           [(TextEncoder_encode (plyHeaderText 2 [(''x'', T_float), (''foo'', T_float)]), False),
            (f32le (rd [''x'', ''foo''] defaultSettings commonA 0 ''x'')
             @ f32le (rd [''x'', ''foo''] defaultSettings commonA 0 ''foo'')
             @ f32le (rd [''x'', ''foo''] defaultSettings commonB 0 ''x'')
             @ f32le (rd [''x'', ''foo''] defaultSettings commonB 0 ''foo''), False)],
         console = [], raised = None \<rparr>"
proof -
  have t: "test exampleState (filter_set f commonA) 0 = Inr True"
          "test exampleState (filter_set f commonB) 0 = Inr True"
    if "f_onlySelected f = False" "f_minOpacity f = 0" "f_removeInvalid f = False" for f
    using that
    by (simp_all add: filter_set_def getProp_def getElement_def
      commonA_def commonB_def test_def test_opacity_def test_invalid_def
      exampleState_def arr_get_def ToInt32_def trunc_def)
  have f0: "f_onlySelected (GaussianFilter_new defaultSettings) = False"
      "f_minOpacity (GaussianFilter_new defaultSettings) = 0"
      "f_removeInvalid (GaussianFilter_new defaultSettings) = False"
    by (simp_all add: GaussianFilter_new_def defaultSettings_def orElse_def)
  have f1: "f_onlySelected (filter_set f s) = f_onlySelected f"
      "f_minOpacity (filter_set f s) = f_minOpacity f"
      "f_removeInvalid (filter_set f s) = f_removeInvalid f" for f s
    by (simp_all add: filter_set_def)
  have n: "numSplats (splatData commonA) = 1" "numSplats (splatData commonB) = 1"
    by (simp_all add: commonA_def commonB_def)
  show ?thesis
    by (simp add: common_example_props common_example_names serializePly_def
        common_example_count common_example_plyProps Let_def n t f0 f1
        setFloat32_def write_at_def f32le_def)
qed

section \<open>Rows of the uncompressed encoder\<close>

lemma count_loop_all_pass:
  assumes "\<And>i. test St f i = Inr True"
  shows "count_loop St f js acc = Inr (acc + length js)"
  by (induction js arbitrary: acc) (simp_all add: assms)

lemma ply_rows_append:
  "ply_rows St f rd props (js @ ks) w
   = (case ply_rows St f rd props js w of
        (w', Some e) \<Rightarrow> (w', Some e)
      | (w', None) \<Rightarrow> ply_rows St f rd props ks w')"
  by (induction js arbitrary: w) (auto simp: Let_def split: sum.splits prod.splits option.splits)

lemma write_props_uchar_other:
  assumes "t \<noteq> T_uchar"
  shows "write_props [(a, T_uchar), (b, t)] d buf off
         = (if off + 5 \<le> length buf
            then Inr (take off buf @ [U8 (ToUint8 (d a))] @ f32le (d b) @ drop (off + 5) buf, off + 5)
            else Inl RangeError)"
proof (cases "off + 5 \<le> length buf")
  case True
  have "write_at (off + 1) (f32le (d b))
          ((take off buf @ [U8 (ToUint8 (d a))]) @ take 4 (drop (off + 1) buf) @ drop (off + 5) buf)
        = Inr ((take off buf @ [U8 (ToUint8 (d a))]) @ f32le (d b) @ drop (off + 5) buf)"
    using True by (intro write_at_mid) (simp_all add: f32le_def)
  moreover have "take 4 (drop (off + 1) buf) @ drop (off + 5) buf = drop (off + 1) buf"
    by (metis add.assoc add.commute drop_drop append_take_drop_id numeral_plus_one semiring_norm(5) semiring_norm(2) one_plus_numeral)
  ultimately show ?thesis
    using True assms by (simp add: setUint8_def setFloat32_def write_at_def[of off])
next
  case False
  then show ?thesis
    using assms by (auto simp: setUint8_def setFloat32_def write_at_def f32le_def)
qed

lemma ply_rows_no_flush:
  assumes "\<And>i. test St f i = Inr True" and "t \<noteq> T_uchar"
    and "pw_offset w + 5 * length js < length (pw_buf w)"
  shows "\<exists>buf'. length buf' = length (pw_buf w)
           \<and> ply_rows St f rd [(a, T_uchar), (b, t)] js w
             = (\<lparr> pw_offset = pw_offset w + 5 * length js, pw_buf = buf',
                   pw_writes = pw_writes w \<rparr>, None)"
  using assms(3)
proof (induction js arbitrary: w)
  case Nil
  then show ?case by (intro exI[of _ "pw_buf w"]) simp
next
  case (Cons j js)
  define buf1 where "buf1 = take (pw_offset w) (pw_buf w) @ [U8 (ToUint8 (rd j a))] @ f32le (rd j b)
              @ drop (pw_offset w + 5) (pw_buf w)"
  define w1 where "w1 = \<lparr> pw_offset = pw_offset w + 5, pw_buf = buf1, pw_writes = pw_writes w \<rparr>"
  have len: "length buf1 = length (pw_buf w)"
    using Cons.prems by (simp add: f32le_def buf1_def)
  have step: "ply_rows St f rd [(a, T_uchar), (b, t)] (j # js) w
              = ply_rows St f rd [(a, T_uchar), (b, t)] js w1"
    using Cons.prems len unfolding w1_def buf1_def
    by (simp add: assms(1) write_props_uchar_other[OF assms(2)] del: write_props.simps)
  have "pw_offset w1 + 5 * length js < length (pw_buf w1)"
    using Cons.prems len by (simp add: w1_def)
  from Cons.IH[OF this] obtain buf' where
    l: "length buf' = length (pw_buf w1)" and
    r: "ply_rows St f rd [(a, T_uchar), (b, t)] js w1
        = (\<lparr> pw_offset = pw_offset w1 + 5 * length js, pw_buf = buf',
             pw_writes = pw_writes w1 \<rparr>, None)"
    by blast
  have "length buf' = length (pw_buf w)" using l len by (simp add: w1_def)
  moreover have "ply_rows St f rd [(a, T_uchar), (b, t)] (j # js) w
        = (\<lparr> pw_offset = pw_offset w + 5 * length (j # js), pw_buf = buf',
             pw_writes = pw_writes w \<rparr>, None)"
    unfolding step r by (simp add: w1_def)
  ultimately show ?case by blast
qed

lemma narrow_example_test:
  assumes "f_onlySelected f = False" "f_minOpacity f = 0" "f_removeInvalid f = False"
  shows "test exampleState (filter_set f narrowExample) i = Inr True"
  using assms
  by (simp add: filter_set_def getProp_def getElement_def narrowExample_def test_def
      test_opacity_def test_invalid_def exampleState_def arr_get_def ToInt32_def trunc_def)

lemma default_filter:
  "f_onlySelected (GaussianFilter_new defaultSettings) = False"
  "f_minOpacity (GaussianFilter_new defaultSettings) = 0"
  "f_removeInvalid (GaussianFilter_new defaultSettings) = False"
  by (simp_all add: GaussianFilter_new_def defaultSettings_def orElse_def)

lemma narrow_example_count:
  "countGaussians exampleState [narrowExample] (GaussianFilter_new defaultSettings) = Inr 615"
proof -
  have "numSplats (splatData narrowExample) = 615" by (simp add: narrowExample_def)
  then show ?thesis
    by (simp add: countGaussians_def count_loop_all_pass[OF narrow_example_test[OF default_filter]])
qed

lemma narrow_example_props:
  "getCommonProps [narrowExample] = Inr [(''state'', T_uchar), (''a'', T_uchar), (''b'', T_short)]"
  by (simp add: getCommonProps_def vertexStorageProps_def getElement_def narrowExample_def
      add_properties_def set_add_def)

lemma narrow_example_plyProps:
  "plyProps defaultSettings [(''state'', T_uchar), (''a'', T_uchar), (''b'', T_short)]
   = [(''a'', T_uchar), (''b'', T_short)]"
  by (simp add: plyProps_def defaultSettings_def orElse_def keepSHProp_def)

lemma narrow_example_rows:
  assumes "length buf = 3072"
  shows "\<exists>w. ply_rows exampleState (filter_set (GaussianFilter_new defaultSettings) narrowExample)
            rd [(''a'', T_uchar), (''b'', T_short)] [0 ..< 615]
            \<lparr> pw_offset = 0, pw_buf = buf, pw_writes = ws \<rparr> = (w, Some RangeError)
           \<and> pw_writes w = ws"
proof -
  let ?f = "filter_set (GaussianFilter_new defaultSettings) narrowExample"
  let ?w0 = "\<lparr> pw_offset = 0, pw_buf = buf, pw_writes = ws \<rparr>"
  have pass: "\<And>i. test exampleState ?f i = Inr True"
    by (rule narrow_example_test[OF default_filter])
  have "\<exists>buf'. length buf' = length (pw_buf ?w0)
           \<and> ply_rows exampleState ?f rd [(''a'', T_uchar), (''b'', T_short)] [0 ..< 614] ?w0
             = (\<lparr> pw_offset = pw_offset ?w0 + 5 * length [0 ..< 614 :: nat], pw_buf = buf',
                   pw_writes = pw_writes ?w0 \<rparr>, None)"
    using assms by (intro ply_rows_no_flush[OF pass]) simp_all
  then obtain buf' where len: "length buf' = 3072"
    and first: "ply_rows exampleState ?f rd [(''a'', T_uchar), (''b'', T_short)] [0 ..< 614] ?w0
             = (\<lparr> pw_offset = 3070, pw_buf = buf', pw_writes = ws \<rparr>, None)"
    using assms by auto
  have last: "ply_rows exampleState ?f rd [(''a'', T_uchar), (''b'', T_short)] [614]
                \<lparr> pw_offset = 3070, pw_buf = buf', pw_writes = ws \<rparr>
              = (\<lparr> pw_offset = 3070, pw_buf = buf', pw_writes = ws \<rparr>, Some RangeError)"
    using len by (simp add: pass write_props_uchar_other del: write_props.simps)
  have "[0 ..< 615] = [0 ..< 614] @ [614 :: nat]"
    using upt_Suc_append[of 0 614] by simp
  then show ?thesis
    by (simp add: ply_rows_append first last del: ply_rows.simps upt_Suc)
qed

text \<open>
  C3 on a collection of 615 splats, none deleted, whose exported properties are \<open>a\<close> of
  type \<open>uchar\<close> and \<open>b\<close> of type \<open>short\<close>. \<open>countGaussians\<close> is 615 and the header
  says so. The staging buffer has \<open>1024 * (1 + 2)\<close> bytes, from \<open>DataTypeSize\<close>; a row
  takes five, one for the \<open>uchar\<close> and four for the float that stands for every other
  type. No multiple of five is 3072, so the buffer is never flushed, and the float of row
  615 does not fit: the encoder ends with a RangeError after the header, with no row
  written.
\<close>

theorem ply_rows_range_error:
  "countGaussians exampleState [narrowExample] (GaussianFilter_new defaultSettings) = Inr 615
   \<and> serializePly exampleState rd [narrowExample] defaultSettings
     = \<lparr> writes = [(TextEncoder_encode
                       (plyHeaderText 615 [(''a'', T_uchar), (''b'', T_short)]), False)],
         console = [], raised = Some RangeError \<rparr>"
proof -
  let ?hdr = "(TextEncoder_encode (plyHeaderText 615 [(''a'', T_uchar), (''b'', T_short)]), False)"
  obtain w where
    rows: "ply_rows exampleState (filter_set (GaussianFilter_new defaultSettings) narrowExample)
            (rd [''a'', ''b''] defaultSettings narrowExample)
            [(''a'', T_uchar), (''b'', T_short)] [0 ..< 615]
            \<lparr> pw_offset = 0, pw_buf = replicate 3072 (U8 0), pw_writes = [?hdr] \<rparr>
           = (w, Some RangeError)"
    and ws: "pw_writes w = [?hdr]"
    using narrow_example_rows[of "replicate 3072 (U8 0)"] by auto
  have n: "numSplats (splatData narrowExample) = 615" by (simp add: narrowExample_def)
  show ?thesis
    by (simp add: narrow_example_count serializePly_def narrow_example_props
        narrow_example_plyProps Let_def n rows ws del: ply_rows.simps upt_Suc)
qed

section \<open>The order of the compressed encoder\<close>

lemma morton_example_state:
  "getProp (splatData mortonExample) ''state'' = Some [Num 0, Num 1, Num 1]"
  "numSplats (splatData mortonExample) = 3"
  by (simp_all add: mortonExample_def getProp_def getElement_def)

lemma morton_example_not_deleted:
  "not_deleted exampleState [Num 0, Num 1, Num 1] i"
proof -
  consider "i = 0" | "i = 1" | "i = 2" | "3 \<le> i" by linarith
  then show ?thesis
    by cases (simp_all add: not_deleted_def exampleState_def arr_get_def ToInt32_def trunc_def)
qed

lemma morton_example_centers:
  "centers mortonExample 0 = 10" "centers mortonExample (Suc 0) = 1"
  "centers mortonExample (Suc (Suc 0)) = 1"
  "centers mortonExample 3 = 0" "centers mortonExample 4 = 0" "centers mortonExample 5 = 0"
  "centers mortonExample 6 = 5" "centers mortonExample 7 = 0" "centers mortonExample 8 = 0"
  by (simp_all add: mortonExample_def)

lemma replicate_2: "replicate 2 x = [x, x]"
  by (simp add: numeral_2_eq_2)

lemma upt_0_3: "[0 ..< 3] = [0, 1, 2 :: nat]"
  by (simp add: numeral_3_eq_3 numeral_2_eq_2)

lemma morton_example_extents:
  "extents_splats exampleState [mortonExample] None
   = Inr (Some \<lparr> minx = 0, maxx = 10, miny = 0, maxy = 1, minz = 0, maxz = 1 \<rparr>)"
  by (simp add: morton_example_state morton_example_not_deleted upt_0_3 extend_def
      morton_example_centers del: upt_Suc)

lemma Part1By2_values:
  "Part1By2 0 = 0" "Part1By2 512 = 0x8000000" "Part1By2 1023 = 0x9249249"
  by (simp_all add: Part1By2_def)

lemma morton_example_codes:
  "mortonCode (Some \<lparr> minx = 0, maxx = 10, miny = 0, maxy = 1, minz = 0, maxz = 1 \<rparr>) 10 1 1
   = 0x3FFFFFFF"
  "mortonCode (Some \<lparr> minx = 0, maxx = 10, miny = 0, maxy = 1, minz = 0, maxz = 1 \<rparr>) 0 0 0 = 0"
  "mortonCode (Some \<lparr> minx = 0, maxx = 10, miny = 0, maxy = 1, minz = 0, maxz = 1 \<rparr>) 5 0 0
   = 0x8000000"
  by (simp_all add: mortonCode_def encodeMorton3_def gridIndex_def ToInt32_def trunc_def
      Part1By2_values)

lemma morton_example_morton:
  "morton_splats exampleState
     (Some \<lparr> minx = 0, maxx = 10, miny = 0, maxy = 1, minz = 0, maxz = 1 \<rparr>)
     [mortonExample] ([0, 0], 0)
   = Inr ([0x3FFFFFFF, 0], 3)"
  by (simp add: morton_example_state morton_example_not_deleted upt_0_3 morton_example_centers
      morton_example_codes del: upt_Suc)

text \<open>
  C7 on a collection of three splats, exported with \<open>selected\<close> set. The survivors are
  the splats 1 and 2; their centers \<open>(0, 0, 0)\<close> and \<open>(5, 0, 0)\<close> differ in the first
  axis only, by 512 cells of the grid, and their Morton codes are 0 and \<open>0x8000000\<close>.
  \<open>sortSplats\<close> fills the code array in the order of the splats that are not deleted,
  so the survivor numbered 0 is sorted by the code of splat 0 and the survivor numbered 1 by
  the code of splat 1: the splat with the larger coordinate comes first.
\<close>

theorem sort_uses_codes_of_other_splats:
  "survivors_splats exampleState
     (GaussianFilter_new (defaultSettings \<lparr> selected := Some True \<rparr>)) [mortonExample] 0 []
   = Inr [\<lparr> splatIndex = 0, ci_i = 1, globalIndex = 0 \<rparr>,
          \<lparr> splatIndex = 0, ci_i = 2, globalIndex = 1 \<rparr>]
   \<and> sortSplats exampleState [mortonExample]
       [\<lparr> splatIndex = 0, ci_i = 1, globalIndex = 0 \<rparr>,
        \<lparr> splatIndex = 0, ci_i = 2, globalIndex = 1 \<rparr>]
     = Inr [\<lparr> splatIndex = 0, ci_i = 2, globalIndex = 1 \<rparr>,
            \<lparr> splatIndex = 0, ci_i = 1, globalIndex = 0 \<rparr>]
   \<and> mortonCode (Some \<lparr> minx = 0, maxx = 10, miny = 0, maxy = 1, minz = 0, maxz = 1 \<rparr>)
         (centers mortonExample 3) (centers mortonExample 4) (centers mortonExample 5) = 0
   \<and> mortonCode (Some \<lparr> minx = 0, maxx = 10, miny = 0, maxy = 1, minz = 0, maxz = 1 \<rparr>)
         (centers mortonExample 6) (centers mortonExample 7) (centers mortonExample 8) = 0x8000000"
proof -
  have "survivors_splats exampleState
     (GaussianFilter_new (defaultSettings \<lparr> selected := Some True \<rparr>)) [mortonExample] 0 []
   = Inr [\<lparr> splatIndex = 0, ci_i = 1, globalIndex = 0 \<rparr>,
          \<lparr> splatIndex = 0, ci_i = 2, globalIndex = 1 \<rparr>]"
    by (simp add: morton_example_state filter_set_new test_def test_opacity_def test_invalid_def
        upt_0_3 defaultSettings_def exampleState_def orElse_def arr_get_def ToInt32_def trunc_def)
  moreover have "sortSplats exampleState [mortonExample]
       [\<lparr> splatIndex = 0, ci_i = 1, globalIndex = 0 \<rparr>,
        \<lparr> splatIndex = 0, ci_i = 2, globalIndex = 1 \<rparr>]
     = Inr [\<lparr> splatIndex = 0, ci_i = 2, globalIndex = 1 \<rparr>,
            \<lparr> splatIndex = 0, ci_i = 1, globalIndex = 0 \<rparr>]"
    unfolding sortSplats_def
    by (simp add: morton_example_extents morton_example_morton
        del: extents_splats.simps morton_splats.simps)
  ultimately show ?thesis
    by (simp add: morton_example_codes morton_example_centers)
qed

section \<open>Block writes\<close>






















section \<open>The chunk loop of the compressed encoder\<close>




















section \<open>The single write of the compressed encoder\<close>












section \<open>Rotation packing\<close>

lemma fields_2_10_10_10:
  fixes a b c :: int and l :: nat
  assumes "l < 4" "0 \<le> a" "a < 1024" "0 \<le> b" "b < 1024" "0 \<le> c" "c < 1024"
  defines "w \<equiv> (push_bit 10 (push_bit 10 (push_bit 10 (word_of_nat l) OR word_of_int a)
                                 OR word_of_int b) OR word_of_int c :: 32 word)"
  shows "unat (drop_bit 30 w) = l"
    and "uint (take_bit 10 (drop_bit 20 w)) = a"
    and "uint (take_bit 10 (drop_bit 10 w)) = b"
    and "uint (take_bit 10 w) = c"
proof -
  have l: "l = take_bit 2 l" using assms by (simp add: take_bit_nat_eq_self)
  have a: "a = take_bit 10 a" using assms by (simp add: take_bit_int_eq_self)
  have b: "b = take_bit 10 b" using assms by (simp add: take_bit_int_eq_self)
  have c: "c = take_bit 10 c" using assms by (simp add: take_bit_int_eq_self)
  have "drop_bit 30 w = word_of_nat l"
    unfolding w_def apply (subst l, subst a, subst b, subst c, subst (2) l)
    by (rule bit_word_eqI) (auto simp add: bit_simps)
  then show "unat (drop_bit 30 w) = l"
    using assms by (simp add: unsigned_of_nat take_bit_nat_eq_self)
  have "take_bit 10 (drop_bit 20 w) = word_of_int a"
    unfolding w_def apply (subst l, subst a, subst b, subst c, subst (2) a)
    by (rule bit_word_eqI) (auto simp add: bit_simps)
  then show "uint (take_bit 10 (drop_bit 20 w)) = a"
    using assms by (simp add: uint_word_of_int_eq take_bit_int_eq_self)
  have "take_bit 10 (drop_bit 10 w) = word_of_int b"
    unfolding w_def apply (subst l, subst a, subst b, subst c, subst (2) b)
    by (rule bit_word_eqI) (auto simp add: bit_simps)
  then show "uint (take_bit 10 (drop_bit 10 w)) = b"
    using assms by (simp add: uint_word_of_int_eq take_bit_int_eq_self)
  have "take_bit 10 w = word_of_int c"
    unfolding w_def apply (subst l, subst a, subst b, subst c, subst (2) c)
    by (rule bit_word_eqI) (auto simp add: bit_simps)
  then show "uint (take_bit 10 w) = c"
    using assms by (simp add: uint_word_of_int_eq take_bit_int_eq_self)
qed

lemma upt_0_4: "[0 ..< 4] = [0, 1, 2, 3 :: nat]"
  by (simp add: eval_nat_numeral)

lemma Quat_normalize_unit:
  assumes "x * x + y * y + z * z + w * w = 1"
  shows "Quat_normalize [x, y, z, w] = [x, y, z, w]"
proof -
  have "x * x + (y * y + (z * z + w * w)) = 1" using assms by simp
  then show ?thesis by (simp add: Quat_normalize_def)
qed

lemma rot_fold:
  fixes f :: "nat \<Rightarrow> 32 word"
  assumes "l < 4"
  shows "foldl (\<lambda>result i. if i \<noteq> l then push_bit 10 result OR f i else result) r [0 ..< 4]
       = (let js = filter (\<lambda>i. i \<noteq> l) [0 ..< 4]
          in push_bit 10 (push_bit 10 (push_bit 10 r OR f (js ! 0)) OR f (js ! 1)) OR f (js ! 2))"
proof -
  consider "l = 0" | "l = 1" | "l = 2" | "l = 3" using assms by linarith
  then show ?thesis by cases (simp_all add: upt_0_4)
qed

lemma sq_diff_bound:
  fixes v a m d :: real
  assumes "\<bar>v - a\<bar> \<le> d" "\<bar>a\<bar> \<le> m"
  shows "\<bar>v * v - a * a\<bar> \<le> d * (2 * m + d)"
proof -
  have d: "0 \<le> d" using assms(1) by linarith
  have "v * v - a * a = (v - a) * (v + a)" by (simp add: algebra_simps)
  then have "\<bar>v * v - a * a\<bar> = \<bar>v - a\<bar> * \<bar>v + a\<bar>" by (simp add: abs_mult)
  also have "\<dots> \<le> d * (2 * m + d)"
  proof (rule mult_mono)
    show "\<bar>v - a\<bar> \<le> d" by (rule assms(1))
    show "\<bar>v + a\<bar> \<le> 2 * m + d" using assms by linarith
    show "0 \<le> d" by (rule d)
    show "0 \<le> \<bar>v + a\<bar>" by simp
  qed
  finally show ?thesis .
qed

lemma abs_le_sq:
  fixes a m :: real
  assumes "\<bar>a\<bar> \<le> m"
  shows "a * a \<le> m * m"
proof -
  have "0 \<le> m" using assms by linarith
  then have "\<bar>a\<bar> \<le> \<bar>m\<bar>" using assms by simp
  then have "a\<^sup>2 \<le> m\<^sup>2" by (rule abs_le_square_iff[THEN iffD1])
  then show ?thesis by (simp add: power2_eq_square)
qed

lemma largest_index_prefix:
  fixes a :: "real list"
  shows "(let l = foldl (\<lambda>curr i. if \<bar>a ! i\<bar> > \<bar>a ! curr\<bar> then i else curr) 0 [0 ..< n]
    in (n = 0 \<and> l = 0 \<or> l < n) \<and> (\<forall>j < n. \<bar>a ! j\<bar> \<le> \<bar>a ! l\<bar>))"
proof (induction n)
  case 0
  then show ?case by simp
next
  case (Suc n)
  define l where "l = foldl (\<lambda>curr i. if \<bar>a ! i\<bar> > \<bar>a ! curr\<bar> then i else curr) 0 [0 ..< n]"
  have ih: "(n = 0 \<and> l = 0 \<or> l < n)" "\<forall>j < n. \<bar>a ! j\<bar> \<le> \<bar>a ! l\<bar>"
    using Suc by (simp_all add: Let_def l_def)
  show ?case
  proof (cases "\<bar>a ! n\<bar> > \<bar>a ! l\<bar>")
    case True
    then have "\<forall>j < Suc n. \<bar>a ! j\<bar> \<le> \<bar>a ! n\<bar>"
      using ih(2) by (auto simp: less_Suc_eq)
    then show ?thesis using True by (simp add: Let_def l_def[symmetric])
  next
    case False
    then have "\<forall>j < Suc n. \<bar>a ! j\<bar> \<le> \<bar>a ! l\<bar>"
      using ih(2) by (auto simp: less_Suc_eq)
    moreover have "l < Suc n" using ih(1) by auto
    ultimately show ?thesis using False by (simp add: Let_def l_def[symmetric])
  qed
qed

lemma largest_index_max:
  fixes a :: "real list"
  assumes "a \<noteq> []"
  shows "largest_index a < length a" and "\<forall>i < length a. \<bar>a ! i\<bar> \<le> \<bar>a ! largest_index a\<bar>"
  using largest_index_prefix[of a "length a"] assms
  by (simp_all add: Let_def largest_index_def)

lemma sqrt2_bounds: "sqrt 2 * sqrt 2 = 2" "0 < sqrt 2" "sqrt 2 \<le> 141439 / 100000"
proof -
  show "sqrt 2 * sqrt 2 = 2" by simp
  show "0 < sqrt 2" by simp
  have "sqrt 2 \<le> sqrt ((141439 / 100000)\<^sup>2)"
    by (subst real_sqrt_le_iff) (simp add: power2_eq_square)
  then show "sqrt 2 \<le> 141439 / 100000" by simp
qed

text \<open>Rounding to 10 bits and back moves a value of \<open>[0, 1]\<close> by at most \<open>1/2046\<close>.\<close>

lemma packUnorm_10_error:
  assumes "0 \<le> t" "t \<le> 1"
  shows "0 \<le> packUnorm t 10" "packUnorm t 10 \<le> 1023"
    and "\<bar>real_of_int (packUnorm t 10) / 1023 - t\<bar> \<le> 1 / 2046"
proof -
  define u where "u = t * 1023 + 1 / 2"
  have u: "0 \<le> \<lfloor>u\<rfloor>" "\<lfloor>u\<rfloor> \<le> 1023"
  proof -
    show "0 \<le> \<lfloor>u\<rfloor>" using assms by (simp add: u_def)
    have "u < 1024" using assms by (simp add: u_def)
    then have "\<lfloor>u\<rfloor> < 1024" by (simp add: floor_less_iff)
    then show "\<lfloor>u\<rfloor> \<le> 1023" by simp
  qed
  have p: "packUnorm t 10 = \<lfloor>u\<rfloor>"
    using u by (simp add: packUnorm_def shl1_10 u_def)
  show "0 \<le> packUnorm t 10" "packUnorm t 10 \<le> 1023" using u p by simp_all
  have "real_of_int \<lfloor>u\<rfloor> \<le> u" "u < real_of_int \<lfloor>u\<rfloor> + 1" by linarith+
  then have "\<bar>real_of_int \<lfloor>u\<rfloor> - (u - 1 / 2)\<bar> \<le> 1 / 2" by linarith
  moreover have "u - 1 / 2 = t * 1023" by (simp add: u_def)
  ultimately have "\<bar>real_of_int \<lfloor>u\<rfloor> - t * 1023\<bar> \<le> 1 / 2" by simp
  then have "\<bar>real_of_int \<lfloor>u\<rfloor> / 1023 - t\<bar> \<le> 1 / 2046" by linarith
  then show "\<bar>real_of_int (packUnorm t 10) / 1023 - t\<bar> \<le> 1 / 2046" by (simp add: p)
qed

text \<open>A component of a unit quaternion that is not the largest is at most \<open>sqrt 2 / 2\<close> in
  magnitude, so its 10-bit field is not clamped and reads back within \<open>sqrt 2 / 2046\<close>.\<close>

lemma stored_component_error:
  fixes a m :: real
  assumes "a * a + m * m \<le> 1" and "\<bar>a\<bar> \<le> m"
  defines "c \<equiv> packUnorm (a * (sqrt 2 * 0.5) + 0.5) 10"
  shows "0 \<le> c" "c < 1024"
    and "\<bar>(real_of_int c / 1023 - 1 / 2) * sqrt 2 - a\<bar> \<le> sqrt 2 / 2046"
proof -
  define t where "t = a * (sqrt 2 * 0.5) + 0.5"
  have "a * a \<le> m * m" using assms(2) by (rule abs_le_sq)
  then have half: "a * a \<le> 1 / 2" using assms(1) by linarith
  have e: "(a * (sqrt 2 * 0.5)) * (a * (sqrt 2 * 0.5)) = (a * a) * (sqrt 2 * sqrt 2) / 4"
    by (simp add: algebra_simps)
  have "(a * (sqrt 2 * 0.5))\<^sup>2 = (a * a) / 2"
    unfolding power2_eq_square e by simp
  moreover have "(a * a) / 2 \<le> (1 / 2)\<^sup>2"
    using half by (simp add: power2_eq_square)
  ultimately have sq: "(a * (sqrt 2 * 0.5))\<^sup>2 \<le> (1 / 2)\<^sup>2" by simp
  have "\<bar>a * (sqrt 2 * 0.5)\<bar> \<le> \<bar>1 / 2 :: real\<bar>"
    by (rule abs_le_square_iff[THEN iffD2, OF sq])
  then have t: "0 \<le> t" "t \<le> 1" by (simp_all add: t_def abs_le_iff)
  have c: "c = packUnorm t 10" by (simp add: c_def t_def)
  show "0 \<le> c" "c < 1024" using packUnorm_10_error(1,2)[OF t] by (simp_all add: c)
  have inv: "(t - 1 / 2) * sqrt 2 = a"
  proof -
    have "(t - 1 / 2) * sqrt 2 = a * (sqrt 2 * sqrt 2) / 2" by (simp add: t_def algebra_simps)
    then show ?thesis by simp
  qed
  have "(real_of_int c / 1023 - 1 / 2) * sqrt 2 - a = (real_of_int c / 1023 - t) * sqrt 2"
    using inv by (simp add: algebra_simps)
  then have "\<bar>(real_of_int c / 1023 - 1 / 2) * sqrt 2 - a\<bar> = \<bar>real_of_int c / 1023 - t\<bar> * sqrt 2"
    by (simp add: abs_mult)
  also have "\<dots> \<le> (1 / 2046) * sqrt 2"
    using packUnorm_10_error(3)[OF t] by (intro mult_right_mono) (simp_all add: c)
  finally show "\<bar>(real_of_int c / 1023 - 1 / 2) * sqrt 2 - a\<bar> \<le> sqrt 2 / 2046" by simp
qed

text \<open>The component rebuilt from the unit norm: three read-back errors of at most
  \<open>sqrt 2 / 2046\<close> move it by at most \<open>11 / 5115\<close>, because it is at least \<open>1/2\<close>.\<close>

lemma reconstruct_error:
  fixes a b c m va vb vc :: real
  assumes unit: "a * a + b * b + c * c + m * m = 1"
    and le: "\<bar>a\<bar> \<le> m" "\<bar>b\<bar> \<le> m" "\<bar>c\<bar> \<le> m"
    and err: "\<bar>va - a\<bar> \<le> sqrt 2 / 2046" "\<bar>vb - b\<bar> \<le> sqrt 2 / 2046" "\<bar>vc - c\<bar> \<le> sqrt 2 / 2046"
  shows "\<bar>sqrt (max 0 (1 - (va * va + vb * vb + vc * vc))) - m\<bar> \<le> 11 / 5115"
proof -
  define d :: real where "d = 6913 / 10000000"
  define B :: real where "B = 11 / 5115"
  define R where "R = max 0 (1 - (va * va + vb * vb + vc * vc))"
  have "sqrt 2 / 2046 \<le> d" using sqrt2_bounds(3) by (simp add: d_def)
  then have e: "\<bar>va - a\<bar> \<le> d" "\<bar>vb - b\<bar> \<le> d" "\<bar>vc - c\<bar> \<le> d" using err by linarith+
  have m0: "0 \<le> m" using le(1) by linarith
  have sq: "a * a \<le> m * m" "b * b \<le> m * m" "c * c \<le> m * m"
    using le by (simp_all add: abs_le_sq)
  then have "1 / 4 \<le> m * m" using unit by linarith
  then have "(1 / 2)\<^sup>2 \<le> m\<^sup>2" by (simp add: power2_eq_square)
  then have mh: "1 / 2 \<le> m" using m0 by (simp add: abs_le_square_iff[symmetric])
  define E where "E = d * (2 * m + d)"
  have E0: "0 \<le> E" using m0 by (simp add: E_def d_def)
  have mm: "0 \<le> m * m" by simp
  have da: "\<bar>va * va - a * a\<bar> \<le> E" unfolding E_def by (rule sq_diff_bound[OF e(1) le(1)])
  have db: "\<bar>vb * vb - b * b\<bar> \<le> E" unfolding E_def by (rule sq_diff_bound[OF e(2) le(2)])
  have dc: "\<bar>vc * vc - c * c\<bar> \<le> E" unfolding E_def by (rule sq_diff_bound[OF e(3) le(3)])
  have up: "R \<le> m * m + 3 * E"
    using da db dc unit E0 mm unfolding R_def by linarith
  have lo: "m * m - 3 * E \<le> R"
    using da db dc unit unfolding R_def by linarith
  have "m * m + 3 * E \<le> (m + B)\<^sup>2"
    using m0 unfolding E_def d_def B_def by (simp add: power2_eq_square algebra_simps)
  then have "R \<le> (m + B)\<^sup>2" using up by linarith
  then have "sqrt R \<le> m + B" using m0 by (intro real_le_lsqrt) (simp_all add: B_def)
  moreover have "(m - B)\<^sup>2 \<le> m * m - 3 * E"
    using mh unfolding E_def d_def B_def by (simp add: power2_eq_square algebra_simps)
  then have "(m - B)\<^sup>2 \<le> R" using lo by linarith
  then have "m - B \<le> sqrt R" by (rule real_le_rsqrt)
  ultimately show ?thesis unfolding R_def B_def by linarith
qed

lemma all_less_4: "(\<forall>i < 4. Q i) \<longleftrightarrow> Q 0 \<and> Q 1 \<and> Q 2 \<and> Q (3 :: nat)"
proof -
  have "i < 4 \<longleftrightarrow> i = 0 \<or> i = 1 \<or> i = 2 \<or> i = 3" for i :: nat by auto
  then show ?thesis by auto
qed

text \<open>The three indices that are stored, in the order of the loop, and the slots of the decoded
  list they correspond to.\<close>

lemma rot_slots:
  fixes g :: "nat \<Rightarrow> real" and m a b c :: 'a
  assumes "l < 4"
  defines "js \<equiv> filter (\<lambda>i. i \<noteq> l) [0 ..< 4]"
  defines "d \<equiv> (if l = 0 then [m, a, b, c] else if l = 1 then [a, m, b, c]
                 else if l = 2 then [a, b, m, c] else [a, b, c, m])"
  shows "js = [js ! 0, js ! 1, js ! 2]"
    and "js ! 0 < 4 \<and> js ! 1 < 4 \<and> js ! 2 < 4"
    and "length d = 4"
    and "d ! l = m"
    and "d ! (js ! 0) = a \<and> d ! (js ! 1) = b \<and> d ! (js ! 2) = c"
    and "(\<forall>i < 4. i \<noteq> l \<longrightarrow> Q i) \<longleftrightarrow> Q (js ! 0) \<and> Q (js ! 1) \<and> Q (js ! 2)"
    and "g 0 + g 1 + g 2 + g 3 = g (js ! 0) + g (js ! 1) + g (js ! 2) + g l"
proof -
  consider "l = 0" | "l = 1" | "l = 2" | "l = 3" using assms(1) by linarith
  then have "js = [js ! 0, js ! 1, js ! 2]
    \<and> (js ! 0 < 4 \<and> js ! 1 < 4 \<and> js ! 2 < 4)
    \<and> length d = 4 \<and> d ! l = m
    \<and> (d ! (js ! 0) = a \<and> d ! (js ! 1) = b \<and> d ! (js ! 2) = c)
    \<and> ((\<forall>i < 4. i \<noteq> l \<longrightarrow> Q i) \<longleftrightarrow> Q (js ! 0) \<and> Q (js ! 1) \<and> Q (js ! 2))
    \<and> g 0 + g 1 + g 2 + g 3 = g (js ! 0) + g (js ! 1) + g (js ! 2) + g l"
    by cases (simp_all add: js_def d_def upt_0_4 all_less_4)
  then show "js = [js ! 0, js ! 1, js ! 2]"
    and "js ! 0 < 4 \<and> js ! 1 < 4 \<and> js ! 2 < 4"
    and "length d = 4"
    and "d ! l = m"
    and "d ! (js ! 0) = a \<and> d ! (js ! 1) = b \<and> d ! (js ! 2) = c"
    and "(\<forall>i < 4. i \<noteq> l \<longrightarrow> Q i) \<longleftrightarrow> Q (js ! 0) \<and> Q (js ! 1) \<and> Q (js ! 2)"
    and "g 0 + g 1 + g 2 + g 3 = g (js ! 0) + g (js ! 1) + g (js ! 2) + g l"
    by blast+
qed

lemma unpackRot_fields:
  fixes ka kb kc :: int and l :: nat
  assumes "l < 4" "0 \<le> ka" "ka < 1024" "0 \<le> kb" "kb < 1024" "0 \<le> kc" "kc < 1024"
  defines "p \<equiv> (push_bit 10 (push_bit 10 (push_bit 10 (word_of_nat l) OR word_of_int ka)
                                 OR word_of_int kb) OR word_of_int kc :: 32 word)"
  defines "a \<equiv> (real_of_int ka / 1023 - 1 / 2) * sqrt 2"
  defines "b \<equiv> (real_of_int kb / 1023 - 1 / 2) * sqrt 2"
  defines "c \<equiv> (real_of_int kc / 1023 - 1 / 2) * sqrt 2"
  defines "m \<equiv> sqrt (max 0 (1 - (a * a + b * b + c * c)))"
  shows "unpackRot p = (if l = 0 then [m, a, b, c] else if l = 1 then [a, m, b, c]
                        else if l = 2 then [a, b, m, c] else [a, b, c, m])"
proof -
  have r: "real (unat v) = real_of_int (uint v)" for v :: "32 word"
    by (subst uint_nat) (simp only: of_int_of_nat_eq)
  note f = fields_2_10_10_10[OF assms(1-7), folded p_def]
  have "unpackRot p = (let largest = l;
          a = (real_of_int ka / 1023 - 1 / 2) * sqrt 2;
          b = (real_of_int kb / 1023 - 1 / 2) * sqrt 2;
          c = (real_of_int kc / 1023 - 1 / 2) * sqrt 2;
          m = sqrt (max 0 (1 - (a * a + b * b + c * c)))
      in if largest = 0 then [m, a, b, c]
         else if largest = 1 then [a, m, b, c]
         else if largest = 2 then [a, b, m, c]
         else [a, b, c, m])"
    by (simp only: unpackRot_def r f)
  then show ?thesis
    by (simp only: Let_def a_def b_def c_def m_def)
qed

text \<open>
  C5, as the code has it. For a unit quaternion \<open>(x, y, z, w)\<close> the normalisation of \<open>packRot\<close> changes
  nothing; the index \<open>l\<close> it selects is that of a component of greatest magnitude; with
  \<open>s = -1\<close> when that component is negative and \<open>s = 1\<close> otherwise, the packed word carries
  \<open>l\<close> in its top two bits and, below it, the three other components in index order, each as
  the 10-bit unorm of \<open>s * value * (sqrt 2 * 0.5) + 0.5\<close>.  Decoding the word (the three
  fields mapped back, the component of index \<open>l\<close> rebuilt non-negative from the unit norm)
  gives the quaternion \<open>s * (x, y, z, w)\<close>, the same orientation, with an error of at most
  \<open>sqrt 2 / 2046\<close> (about \<open>0.7 / 1023\<close>) on each stored component and at most \<open>11 / 5115\<close>
  (about \<open>2.2 / 1023\<close>) on the rebuilt one.
\<close>

theorem packRot_roundtrip:
  assumes unit: "x * x + y * y + z * z + w * w = 1"
  shows "(let q = [x, y, z, w];
              l = largest_index q;
              s = (if q ! l < 0 then - 1 else 1);
              p = packRot x y z w;
              d = unpackRot p
          in Quat_normalize q = q \<and> l < 4 \<and> (\<forall>i < 4. \<bar>q ! i\<bar> \<le> \<bar>q ! l\<bar>)
           \<and> unat (drop_bit 30 p) = l
           \<and> map uint [take_bit 10 (drop_bit 20 p), take_bit 10 (drop_bit 10 p), take_bit 10 p]
               = map (\<lambda>i. packUnorm (s * q ! i * (sqrt 2 * 0.5) + 0.5) 10)
                   (filter (\<lambda>i. i \<noteq> l) [0 ..< 4])
           \<and> length d = 4
           \<and> (\<forall>i < 4. i \<noteq> l \<longrightarrow> \<bar>d ! i - s * q ! i\<bar> \<le> sqrt 2 / 2046)
           \<and> \<bar>d ! l - s * q ! l\<bar> \<le> 11 / 5115)"
proof -
  define q where "q = [x, y, z, w]"
  define l where "l = largest_index q"
  define s :: real where "s = (if q ! l < 0 then - 1 else 1)"
  define js where "js = filter (\<lambda>i. i \<noteq> l) [0 ..< 4]"
  define A where "A i = s * q ! i" for i
  define P where "P i = packUnorm (A i * (sqrt 2 * 0.5) + 0.5) 10" for i
  define p where "p = packRot x y z w"
  have g1: "Quat_normalize q = q" unfolding q_def by (rule Quat_normalize_unit[OF unit])
  have len: "length q = 4" "q \<noteq> []" by (simp_all add: q_def)
  have g2: "l < 4" using largest_index_max(1)[OF len(2)] by (simp add: l_def len)
  have g3: "\<forall>i < 4. \<bar>q ! i\<bar> \<le> \<bar>q ! l\<bar>"
    using largest_index_max(2)[OF len(2)] by (simp add: l_def len)
  have ss: "s * s = 1" by (simp add: s_def)
  have m: "A l = \<bar>q ! l\<bar>" by (simp add: A_def s_def)
  have absA: "\<bar>A i\<bar> = \<bar>q ! i\<bar>" for i by (simp add: A_def s_def abs_mult)
  have AA: "A i * A i = q ! i * q ! i" for i
  proof -
    have "A i * A i = (s * s) * (q ! i * q ! i)" by (simp add: A_def)
    then show ?thesis by (simp add: ss)
  qed
  have nn: "0 \<le> A i * A i" for i by simp
  note sl = rot_slots[OF g2, folded js_def]
  have "A 0 * A 0 + A 1 * A 1 + A 2 * A 2 + A 3 * A 3 = 1"
    using unit by (simp add: AA q_def)
  then have u: "A (js ! 0) * A (js ! 0) + A (js ! 1) * A (js ! 1) + A (js ! 2) * A (js ! 2)
      + A l * A l = 1"
    using sl(7)[of "\<lambda>i. A i * A i"] by simp
  have le: "\<bar>A (js ! 0)\<bar> \<le> A l" "\<bar>A (js ! 1)\<bar> \<le> A l" "\<bar>A (js ! 2)\<bar> \<le> A l"
    using g3 sl(2) by (simp_all add: absA m)
  have u0: "A (js ! 0) * A (js ! 0) + A l * A l \<le> 1"
    using u nn[of "js ! 1"] nn[of "js ! 2"] by linarith
  have u1: "A (js ! 1) * A (js ! 1) + A l * A l \<le> 1"
    using u nn[of "js ! 0"] nn[of "js ! 2"] by linarith
  have u2: "A (js ! 2) * A (js ! 2) + A l * A l \<le> 1"
    using u nn[of "js ! 0"] nn[of "js ! 1"] by linarith
  note e0 = stored_component_error[OF u0 le(1), folded P_def]
  note e1 = stored_component_error[OF u1 le(2), folded P_def]
  note e2 = stored_component_error[OF u2 le(3), folded P_def]
  have codeA: "(if q ! l < 0 then map uminus q else q) ! i = A i" if "i < 4" for i
    using that by (simp add: A_def s_def len)
  have pk: "p = foldl (\<lambda>result i. if i \<noteq> l
        then push_bit 10 result OR
          word_of_int (packUnorm ((if q ! l < 0 then map uminus q else q) ! i * (sqrt 2 * 0.5) + 0.5) 10)
        else result) (word_of_nat l) [0 ..< 4]"
    unfolding p_def packRot_def
    by (simp only: Let_def q_def[symmetric] g1 l_def[symmetric])
  have pw: "p = push_bit 10 (push_bit 10 (push_bit 10 (word_of_nat l) OR word_of_int (P (js ! 0)))
      OR word_of_int (P (js ! 1))) OR word_of_int (P (js ! 2))"
    unfolding pk rot_fold[OF g2] Let_def js_def[symmetric] P_def
    using sl(2) by (simp only: codeA)
  have r0: "P (js ! 0) < 1024" using e0(2) by simp
  have r1: "P (js ! 1) < 1024" using e1(2) by simp
  have r2: "P (js ! 2) < 1024" using e2(2) by simp
  note f = fields_2_10_10_10[OF g2 e0(1) r0 e1(1) r1 e2(1) r2, folded pw]
  define va where "va = (real_of_int (P (js ! 0)) / 1023 - 1 / 2) * sqrt 2"
  define vb where "vb = (real_of_int (P (js ! 1)) / 1023 - 1 / 2) * sqrt 2"
  define vc where "vc = (real_of_int (P (js ! 2)) / 1023 - 1 / 2) * sqrt 2"
  define vm where "vm = sqrt (max 0 (1 - (va * va + vb * vb + vc * vc)))"
  have d: "unpackRot p = (if l = 0 then [vm, va, vb, vc] else if l = 1 then [va, vm, vb, vc]
      else if l = 2 then [va, vb, vm, vc] else [va, vb, vc, vm])"
    using unpackRot_fields[OF g2 e0(1) r0 e1(1) r1 e2(1) r2, folded pw]
    by (simp only: va_def vb_def vc_def vm_def)
  have ea: "\<bar>va - A (js ! 0)\<bar> \<le> sqrt 2 / 2046" unfolding va_def by (rule e0(3))
  have eb: "\<bar>vb - A (js ! 1)\<bar> \<le> sqrt 2 / 2046" unfolding vb_def by (rule e1(3))
  have ec: "\<bar>vc - A (js ! 2)\<bar> \<le> sqrt 2 / 2046" unfolding vc_def by (rule e2(3))
  have em: "\<bar>vm - A l\<bar> \<le> 11 / 5115"
    unfolding vm_def by (rule reconstruct_error[OF u le ea eb ec])
  have g4: "unat (drop_bit 30 p) = l" by (rule f(1))
  have "map (\<lambda>i. packUnorm (s * q ! i * (sqrt 2 * 0.5) + 0.5) 10) js
      = map P [js ! 0, js ! 1, js ! 2]"
    unfolding P_def A_def by (rule arg_cong[OF sl(1)])
  then have g5: "map uint [take_bit 10 (drop_bit 20 p), take_bit 10 (drop_bit 10 p), take_bit 10 p]
      = map (\<lambda>i. packUnorm (s * q ! i * (sqrt 2 * 0.5) + 0.5) 10) js"
    by (simp only: list.map f)
  have g6: "length (unpackRot p) = 4" unfolding d by (rule sl(3))
  have g8: "\<bar>unpackRot p ! l - s * q ! l\<bar> \<le> 11 / 5115"
    using em unfolding d sl(4) A_def .
  have g7: "\<forall>i < 4. i \<noteq> l \<longrightarrow> \<bar>unpackRot p ! i - s * q ! i\<bar> \<le> sqrt 2 / 2046"
    unfolding sl(6) d using ea eb ec sl(5)[of vm va vb vc] by (simp only: A_def)
  show ?thesis
    unfolding Let_def q_def[symmetric] l_def[symmetric] s_def[symmetric] p_def[symmetric]
      js_def[symmetric]
    using g1 g2 g3 g4 g5 g6 g7 g8 by blast
qed

theorem packRot_roundtrip_witness:
  "(3 / 5) * (3 / 5) + 0 * 0 + 0 * 0 + (- 4 / 5) * (- 4 / 5) = (1 :: real)
   \<and> (let q = [3 / 5, 0, 0, - 4 / 5];
          l = largest_index q;
          s = (if q ! l < 0 then - 1 else 1);
          p = packRot (3 / 5) 0 0 (- 4 / 5);
          d = unpackRot p
      in Quat_normalize q = q \<and> l < 4 \<and> (\<forall>i < 4. \<bar>q ! i\<bar> \<le> \<bar>q ! l\<bar>)
       \<and> unat (drop_bit 30 p) = l
       \<and> map uint [take_bit 10 (drop_bit 20 p), take_bit 10 (drop_bit 10 p), take_bit 10 p]
           = map (\<lambda>i. packUnorm (s * q ! i * (sqrt 2 * 0.5) + 0.5) 10)
               (filter (\<lambda>i. i \<noteq> l) [0 ..< 4])
       \<and> length d = 4
       \<and> (\<forall>i < 4. i \<noteq> l \<longrightarrow> \<bar>d ! i - s * q ! i\<bar> \<le> sqrt 2 / 2046)
       \<and> \<bar>d ! l - s * q ! l\<bar> \<le> 11 / 5115)"
proof -
  have u: "(3 / 5) * (3 / 5) + 0 * 0 + 0 * 0 + (- 4 / 5) * (- 4 / 5) = (1 :: real)" by simp
  show ?thesis using u packRot_roundtrip[OF u] by (rule conjI)
qed


lemma sqrt2_tight: "141421 / 100000 \<le> sqrt 2" "sqrt 2 \<le> 141422 / 100000"
proof -
  have "sqrt ((141421 / 100000)\<^sup>2) \<le> sqrt 2"
    by (subst real_sqrt_le_iff) (simp add: power2_eq_square)
  then show "141421 / 100000 \<le> sqrt 2" by simp
  have "sqrt 2 \<le> sqrt ((141422 / 100000)\<^sup>2)"
    by (subst real_sqrt_le_iff) (simp add: power2_eq_square)
  then show "sqrt 2 \<le> 141422 / 100000" by simp
qed

text \<open>C5 as stated fails for the rebuilt component: its error is not about \<open>1/1023\<close>. For
  the unit quaternion \<open>(504, 504, 504, 541) / 1027\<close> the three stored fields are 866 each
  and the fourth component is rebuilt with an error above \<open>1.9 / 1023\<close>.\<close>

theorem packRot_error_counterexample:
  "(504 / 1027) * (504 / 1027) + (504 / 1027) * (504 / 1027) + (504 / 1027) * (504 / 1027)
     + (541 / 1027) * (541 / 1027) = (1 :: real)
   \<and> largest_index [504 / 1027, 504 / 1027, 504 / 1027, 541 / 1027] = 3
   \<and> map uint [take_bit 10 (drop_bit 20 (packRot (504 / 1027) (504 / 1027) (504 / 1027) (541 / 1027))),
               take_bit 10 (drop_bit 10 (packRot (504 / 1027) (504 / 1027) (504 / 1027) (541 / 1027))),
               take_bit 10 (packRot (504 / 1027) (504 / 1027) (504 / 1027) (541 / 1027))]
       = [866, 866, 866]
   \<and> 19 / 10230
       < \<bar>unpackRot (packRot (504 / 1027) (504 / 1027) (504 / 1027) (541 / 1027)) ! 3 - 541 / 1027\<bar>"
proof -
  define a :: real where "a = 504 / 1027"
  define m :: real where "m = 541 / 1027"
  define p where "p = packRot a a a m"
  have unit: "a * a + a * a + a * a + m * m = 1" by (simp add: a_def m_def)
  have li: "largest_index [a, a, a, m] = 3"
    by (simp add: largest_index_def upt_0_4 a_def m_def)
  have k: "packUnorm (a * (sqrt 2 * 0.5) + 0.5) 10 = 866"
  proof -
    have "\<lfloor>(a * (sqrt 2 * 0.5) + 0.5) * 1023 + 0.5\<rfloor> = 866"
    proof (rule floor_unique)
      have "(a * (sqrt 2 * 0.5) + 0.5) * 1023 + 0.5 = a * (1023 / 2) * sqrt 2 + 512"
        by (simp add: algebra_simps)
      moreover have "a * (1023 / 2) * (141421 / 100000) \<le> a * (1023 / 2) * sqrt 2"
        using sqrt2_tight(1) by (intro mult_left_mono) (simp_all add: a_def)
      moreover have "a * (1023 / 2) * sqrt 2 \<le> a * (1023 / 2) * (141422 / 100000)"
        using sqrt2_tight(2) by (intro mult_left_mono) (simp_all add: a_def)
      ultimately show "real_of_int 866 \<le> (a * (sqrt 2 * 0.5) + 0.5) * 1023 + 0.5"
        and "(a * (sqrt 2 * 0.5) + 0.5) * 1023 + 0.5 < real_of_int 866 + 1"
        by (simp_all add: a_def)
    qed
    then show ?thesis by (simp add: packUnorm_def shl1_10)
  qed
  have l4: "(3 :: nat) < 4" by simp
  have pk: "p = foldl (\<lambda>result i. if i \<noteq> 3
        then push_bit 10 result OR
          word_of_int (packUnorm ([a, a, a, m] ! i * (sqrt 2 * 0.5) + 0.5) 10)
        else result) (word_of_nat 3) [0 ..< 4]"
  proof -
    have "\<not> [a, a, a, m] ! 3 < 0" by (simp add: m_def)
    then show ?thesis
      unfolding p_def packRot_def
      by (simp only: Let_def Quat_normalize_unit[OF unit] li if_False)
  qed
  have pw: "p = push_bit 10 (push_bit 10 (push_bit 10 (word_of_nat 3) OR word_of_int 866)
      OR word_of_int 866) OR word_of_int 866"
  proof -
    have k': "packUnorm (a * sqrt 2 / 2 + 1 / 2) 10 = 866" using k by simp
    show ?thesis unfolding pk rot_fold[OF l4] by (simp add: upt_0_4 k')
  qed
  have r: "(0 :: int) \<le> 866" "(866 :: int) < 1024" by simp_all
  note f = fields_2_10_10_10[OF l4 r r r, folded pw]
  define va where "va = (real_of_int 866 / 1023 - 1 / 2) * sqrt 2"
  define vm where "vm = sqrt (max 0 (1 - (va * va + va * va + va * va)))"
  have d: "unpackRot p = [va, va, va, vm]"
    using unpackRot_fields[OF l4 r r r, folded pw] by (simp add: va_def vm_def)
  have "va * va = (real_of_int 866 / 1023 - 1 / 2) * (real_of_int 866 / 1023 - 1 / 2) * (sqrt 2 * sqrt 2)"
    by (simp add: va_def)
  then have vv: "va * va = 502681 / 2093058" by simp
  have "(m + 19 / 10230)\<^sup>2 < max 0 (1 - (va * va + va * va + va * va))"
    unfolding vv by (simp add: m_def power2_eq_square)
  then have "m + 19 / 10230 < vm" unfolding vm_def by (rule real_less_rsqrt)
  then have "19 / 10230 < \<bar>unpackRot p ! 3 - m\<bar>" by (simp add: d)
  then show ?thesis
    using unit li f by (simp add: p_def a_def m_def)
qed

end
